theory Spec2Isabelle
  imports Main
begin

section \<open>Python values\<close>

text \<open>
  The agent of \<^verbatim>\<open>src/agent/agent.py\<close> handles dynamically typed values: what
  \<^verbatim>\<open>json.loads\<close> yields, what the capability handlers return, and the messages of the
  chat history. A dictionary keeps its insertion order, so it is an association list;
  its keys are strings, as in every dictionary the agent builds or parses.
  \<open>POther\<close> stands for a value of any other type (a float, a date), carried by its
  type name, its truth value and its \<^verbatim>\<open>str()\<close> text.
\<close>

datatype pyval =
    PNone
  | PBool bool
  | PInt int
  | PStr string
  | PList "pyval list"
  | PDict "(string \<times> pyval) list"
  | POther string bool string

type_synonym pydict = "(string \<times> pyval) list"

text \<open>
  An exception, carried by its \<^verbatim>\<open>str(e)\<close> text and by what decides which
  \<^verbatim>\<open>except\<close> clause catches it: \<open>JSONDecodeError\<close>; \<open>Exception\<close> for any other
  instance of \<^verbatim>\<open>Exception\<close> (a \<^verbatim>\<open>TypeError\<close>, a \<^verbatim>\<open>RecursionError\<close>, a plain
  \<^verbatim>\<open>ValueError\<close>); \<open>BaseException\<close> for one that is no instance of \<^verbatim>\<open>Exception\<close>
  (\<^verbatim>\<open>asyncio.CancelledError\<close>, \<^verbatim>\<open>KeyboardInterrupt\<close>).
\<close>

datatype exn = Exception string | JSONDecodeError string | BaseException string

fun exn_text :: "exn \<Rightarrow> string" where
  "exn_text (Exception m) = m"
| "exn_text (JSONDecodeError m) = m"
| "exn_text (BaseException m) = m"

text \<open>What \<^verbatim>\<open>except Exception\<close> catches.\<close>

fun is_Exception :: "exn \<Rightarrow> bool" where
  "is_Exception (Exception m) = True"
| "is_Exception (JSONDecodeError m) = True"
| "is_Exception (BaseException m) = False"

text \<open>Truth value of a Python object, as \<^verbatim>\<open>if x:\<close> tests it.\<close>

fun truthy :: "pyval \<Rightarrow> bool" where
  "truthy PNone = False"
| "truthy (PBool b) = b"
| "truthy (PInt i) = (i \<noteq> 0)"
| "truthy (PStr s) = (s \<noteq> [])"
| "truthy (PList xs) = (xs \<noteq> [])"
| "truthy (PDict d) = (d \<noteq> [])"
| "truthy (POther ty t s) = t"

text \<open>\<^verbatim>\<open>k in d\<close>, \<^verbatim>\<open>d.get(k)\<close> and \<^verbatim>\<open>d.get(k, default)\<close> on a dictionary.\<close>

definition has_key :: "pydict \<Rightarrow> string \<Rightarrow> bool" where
  "has_key d k = (map_of d k \<noteq> None)"

definition dict_get_default :: "pydict \<Rightarrow> string \<Rightarrow> pyval \<Rightarrow> pyval" where
  "dict_get_default d k dflt = (case map_of d k of None \<Rightarrow> dflt | Some v \<Rightarrow> v)"

definition dict_get :: "pydict \<Rightarrow> string \<Rightarrow> pyval" where
  "dict_get d k = dict_get_default d k PNone"

text \<open>\<^verbatim>\<open>d[k] = v\<close>: an existing key keeps its place, a new key goes last.\<close>

fun dict_set :: "pydict \<Rightarrow> string \<Rightarrow> pyval \<Rightarrow> pydict" where
  "dict_set [] k v = [(k, v)]"
| "dict_set ((k', v') # d) k v = (if k' = k then (k, v) # d else (k', v') # dict_set d k v)"

text \<open>The name of a value's type, as it appears in the interpreter's error texts.\<close>

fun type_name :: "pyval \<Rightarrow> string" where
  "type_name PNone = ''NoneType''"
| "type_name (PBool b) = ''bool''"
| "type_name (PInt i) = ''int''"
| "type_name (PStr s) = ''str''"
| "type_name (PList xs) = ''list''"
| "type_name (PDict d) = ''dict''"
| "type_name (POther ty t s) = ty"

text \<open>
  \<^verbatim>\<open>x.get(...)\<close> on a value that is no dictionary raises \<^verbatim>\<open>AttributeError\<close>; a list
  or a dictionary used as a dictionary key raises \<^verbatim>\<open>TypeError\<close>.
\<close>

definition no_attribute_get :: "pyval \<Rightarrow> exn" where
  "no_attribute_get v =
     Exception ([CHR 0x27] @ type_name v @ [CHR 0x27] @ '' object has no attribute ''
                @ [CHR 0x27] @ ''get'' @ [CHR 0x27])"

definition unhashable :: "pyval \<Rightarrow> exn" where
  "unhashable v =
     Exception (''unhashable type: '' @ [CHR 0x27] @ type_name v @ [CHR 0x27])"

fun hashable :: "pyval \<Rightarrow> bool" where
  "hashable (PList xs) = False"
| "hashable (PDict d) = False"
| "hashable v = True"

text \<open>Decimal digits of an integer, as \<^verbatim>\<open>str()\<close> prints it.\<close>

definition digit_char :: "nat \<Rightarrow> char" where
  "digit_char n = ''0123456789'' ! n"

function str_of_nat :: "nat \<Rightarrow> string" where
  "str_of_nat n = (if n < 10 then [digit_char n] else str_of_nat (n div 10) @ [digit_char (n mod 10)])"
  by pat_completeness auto
termination
  by (relation "measure id") auto

definition str_of_int :: "int \<Rightarrow> string" where
  "str_of_int i = (if i < 0 then CHR ''-'' # str_of_nat (nat (- i)) else str_of_nat (nat i))"

text \<open>
  \<^verbatim>\<open>str(x)\<close>, as the f-strings of the dispatcher format a tool name. A list and a
  dictionary never reach it there (the registry lookup has raised before), so their
  rendering is left out.
\<close>

fun py_str :: "pyval \<Rightarrow> string" where
  "py_str PNone = ''None''"
| "py_str (PBool b) = (if b then ''True'' else ''False'')"
| "py_str (PInt i) = str_of_int i"
| "py_str (PStr s) = s"
| "py_str (POther ty t s) = s"
| "py_str (PList xs) = []"
| "py_str (PDict d) = []"

section \<open>The result projection\<close>

text \<open>
  Lines 298 to 320 of \<^verbatim>\<open>_execute_tool\<close>: the summary of one document record. The six
  fixed fields are read with \<^verbatim>\<open>doc.get\<close> (\<open>None\<close> when missing); the two presidential
  fields are copied when their value is true (lines 309 to 312, \<open>copy_if_true\<close>);
  agencies and topics when the key is there (lines 315 to 318, \<open>copy_if_present\<close>).
\<close>

definition copy_if_true :: "pydict \<Rightarrow> string \<Rightarrow> pydict \<Rightarrow> pydict" where
  "copy_if_true doc k simplified_doc =
     (if truthy (dict_get doc k) then dict_set simplified_doc k (dict_get doc k)
      else simplified_doc)"

definition copy_if_present :: "pydict \<Rightarrow> string \<Rightarrow> pydict \<Rightarrow> pydict" where
  "copy_if_present doc k simplified_doc =
     (if has_key doc k then dict_set simplified_doc k (dict_get doc k)
      else simplified_doc)"

definition simplify_doc :: "pydict \<Rightarrow> pydict" where
  "simplify_doc doc =
    (let simplified_doc =
           [(''id'', dict_get doc ''id''),
            (''document_number'', dict_get doc ''document_number''),
            (''document_type'', dict_get doc ''document_type''),
            (''title'', dict_get doc ''title''),
            (''publication_date'', dict_get doc ''publication_date''),
            (''abstract'', dict_get doc ''abstract'')];
         simplified_doc = copy_if_true doc ''presidential_document_type'' simplified_doc;
         simplified_doc = copy_if_true doc ''executive_order_number'' simplified_doc;
         simplified_doc = copy_if_present doc ''agencies'' simplified_doc;
         simplified_doc = copy_if_present doc ''topics'' simplified_doc
     in simplified_doc)"

text \<open>The projection of a list of records: the loop of line 298 on dictionaries.\<close>

definition project :: "pydict list \<Rightarrow> pydict list" where
  "project docs = map simplify_doc docs"

text \<open>
  The same loop on the elements of an arbitrary list: \<^verbatim>\<open>doc.get\<close> raises on the
  first element that is no dictionary.
\<close>

fun simplify_all :: "pyval list \<Rightarrow> exn + pyval list" where
  "simplify_all [] = Inr []"
| "simplify_all (PDict doc # rest) =
     (case simplify_all rest of
        Inl e \<Rightarrow> Inl e
      | Inr simplified_result \<Rightarrow> Inr (PDict (simplify_doc doc) # simplified_result))"
| "simplify_all (v # rest) = Inl (no_attribute_get v)"

text \<open>The test of line 296 that decides whether a result is summarised.\<close>

fun is_document_list :: "pyval \<Rightarrow> bool" where
  "is_document_list (PList (PDict d # rest)) = has_key d ''document_number''"
| "is_document_list v = False"

definition required_fields :: "string list" where
  "required_fields =
     [''id'', ''document_number'', ''document_type'', ''title'', ''publication_date'',
      ''abstract'']"

definition summary_fields :: "string list" where
  "summary_fields =
     required_fields @
     [''presidential_document_type'', ''executive_order_number'', ''agencies'', ''topics'']"

section \<open>The dispatcher\<close>

text \<open>The names registered in \<^verbatim>\<open>self.available_tools\<close> (lines 29 to 40).\<close>

definition available_tools :: "string list" where
  "available_tools =
     [''search_documents'', ''get_recent_documents'', ''get_document_by_id'',
      ''get_document_types'', ''get_agencies'', ''get_topics'',
      ''get_presidential_document_types'', ''search_recent_executive_orders'',
      ''search_documents_by_date_range'', ''search_by_agency_and_topic'']"

text \<open>
  A handler call \<^verbatim>\<open>tool_func(**parameters)\<close> reads the storage: it takes the state of
  the outside world and returns the new one, with a value or the exception it raised
  (binding the parameters included).
\<close>

type_synonym 'w handlers = "string \<Rightarrow> pyval \<Rightarrow> 'w \<Rightarrow> (exn + pyval) \<times> 'w"

definition error_payload :: "string \<Rightarrow> pyval" where
  "error_payload m = PDict [(''error'', PStr m)]"

text \<open>
  \<^verbatim>\<open>_execute_tool\<close> (lines 275 to 327). The registry lookup of line 288 stands before
  the \<^verbatim>\<open>try\<close>: hashing a list or a dictionary raises there, and that exception leaves
  the function (\<open>Inl\<close>). What is raised inside the \<^verbatim>\<open>try\<close> becomes an error payload
  when \<^verbatim>\<open>except Exception\<close> (line 325) catches it, and leaves the function otherwise.
\<close>

definition execute_tool :: "'w handlers \<Rightarrow> pyval \<Rightarrow> pyval \<Rightarrow> 'w \<Rightarrow> (exn + pyval) \<times> 'w" where
  "execute_tool handlers tool_name parameters w =
    (if \<not> hashable tool_name then (Inl (unhashable tool_name), w)
     else case tool_name of
       PStr name \<Rightarrow>
         (if name \<notin> set available_tools
          then (Inr (error_payload (''Tool not found: '' @ name)), w)
          else
            (case handlers name parameters w of
               (Inl e, w') \<Rightarrow>
                 (if is_Exception e
                  then (Inr (error_payload
                          (''Error executing tool '' @ name @ '': '' @ exn_text e)), w')
                  else (Inl e, w'))
             | (Inr result, w') \<Rightarrow>
                 (if is_document_list result
                  then (case result of
                          PList docs \<Rightarrow>
                            (case simplify_all docs of
                               Inl e \<Rightarrow>
                                 (Inr (error_payload
                                    (''Error executing tool '' @ name @ '': '' @ exn_text e)), w')
                             | Inr simplified_result \<Rightarrow> (Inr (PList simplified_result), w'))
                        | other \<Rightarrow> (Inr result, w'))
                  else (Inr result, w'))))
     | other \<Rightarrow> (Inr (error_payload (''Tool not found: '' @ py_str tool_name)), w))"

section \<open>The tool-call extractor\<close>

text \<open>
  \<^verbatim>\<open>_extract_tool_calls\<close> (lines 329 to 358) scans the reply with
  \<^verbatim>\<open>re.findall(r'```json\s*([\s\S]*?)\s*```', text)\<close> and parses every captured group with
  \<^verbatim>\<open>json.loads\<close>. A text is a list of characters, each a code point below 256; the
  characters \<^verbatim>\<open>\s\<close> matches there are those of \<open>whitespace_chars\<close>.
\<close>

definition whitespace_chars :: "char list" where
  "whitespace_chars =
     [CHR 0x09, CHR 0x0A, CHR 0x0B, CHR 0x0C, CHR 0x0D, CHR 0x1C, CHR 0x1D, CHR 0x1E,
      CHR 0x1F, CHR 0x20, CHR 0x85, CHR 0xA0]"

definition is_space :: "char \<Rightarrow> bool" where
  "is_space c = (c \<in> set whitespace_chars)"

text \<open>The two literal parts of the pattern.\<close>

definition opener :: string where
  "opener = ''```json''"

definition closer :: string where
  "closer = ''```''"

definition starts_with :: "string \<Rightarrow> string \<Rightarrow> bool" where
  "starts_with p s = (take (length p) s = p)"

text \<open>
  The text before the first closing fence, and the text after that fence: the lazy group
  \<^verbatim>\<open>([\s\S]*?)\<close> followed by \<^verbatim>\<open>\s*```\<close> ends at the first closing fence, and the
  whitespace just before the fence belongs to \<^verbatim>\<open>\s*\<close>, not to the group
  (\<open>rstrip\<close>).
\<close>

fun split_at_closer :: "string \<Rightarrow> (string \<times> string) option" where
  "split_at_closer [] = None"
| "split_at_closer (c # cs) =
     (if starts_with closer (c # cs) then Some ([], drop (length closer) (c # cs))
      else (case split_at_closer cs of
              None \<Rightarrow> None
            | Some (body, rest) \<Rightarrow> Some (c # body, rest)))"

definition rstrip :: "string \<Rightarrow> string" where
  "rstrip s = rev (dropWhile is_space (rev s))"

lemma split_at_closer_shorter:
  "split_at_closer s = Some (body, rest) \<Longrightarrow> length rest < length s"
  by (induction s arbitrary: body) (auto simp add: closer_def split: if_splits option.splits)

text \<open>
  \<^verbatim>\<open>re.findall\<close> for this pattern: the matches from left to right, without overlap.
  At an opening fence the greedy \<^verbatim>\<open>\s*\<close> takes all the whitespace that follows (a fence
  is no whitespace, so no backtracking gives anything else); with no closing fence after
  it the start position fails and the scan moves on by one character.
\<close>

function findall_json_blocks :: "string \<Rightarrow> string list" where
  "findall_json_blocks [] = []"
| "findall_json_blocks (c # cs) =
     (if starts_with opener (c # cs)
      then (case split_at_closer (dropWhile is_space (drop (length opener) (c # cs))) of
              None \<Rightarrow> findall_json_blocks cs
            | Some (body, rest) \<Rightarrow> rstrip body # findall_json_blocks rest)
      else findall_json_blocks cs)"
  by pat_completeness auto
termination
proof (relation "measure length")
  fix c cs x2 x y
  assume "starts_with opener (c # cs)"
    and "split_at_closer (dropWhile is_space (drop (length opener) (c # cs))) = Some x2"
    and "(x, y) = x2"
  then have "length y < length (dropWhile is_space (drop (length opener) (c # cs)))"
    using split_at_closer_shorter [of _ x y] by simp
  also have "\<dots> \<le> length (drop (length opener) (c # cs))"
    by (rule length_dropWhile_le)
  also have "\<dots> \<le> length (c # cs)"
    by simp
  finally show "(y, c # cs) \<in> measure length" by simp
qed simp_all

text \<open>
  The test of line 352 and the loop of lines 346 to 356. \<^verbatim>\<open>json.loads\<close> is a parameter
  that returns a value or raises. The loop catches \<^verbatim>\<open>JSONDecodeError\<close> alone (line
  354): any other exception of the parser (a \<^verbatim>\<open>RecursionError\<close> on deep nesting, a plain
  \<^verbatim>\<open>ValueError\<close> on a very long number) ends the loop and leaves the extractor.
\<close>

definition is_tool_call :: "pyval \<Rightarrow> bool" where
  "is_tool_call tool_call =
     (case tool_call of
        PDict d \<Rightarrow> has_key d ''name'' \<and> has_key d ''parameters''
      | other \<Rightarrow> False)"

fun collect_tool_calls :: "(string \<Rightarrow> exn + pyval) \<Rightarrow> string list \<Rightarrow> exn + pyval list" where
  "collect_tool_calls loads [] = Inr []"
| "collect_tool_calls loads (m # matches) =
     (case loads m of
        Inl (JSONDecodeError t) \<Rightarrow> collect_tool_calls loads matches
      | Inl e \<Rightarrow> Inl e
      | Inr tool_call \<Rightarrow>
          (if is_tool_call tool_call
           then (case collect_tool_calls loads matches of
                   Inl e \<Rightarrow> Inl e
                 | Inr tool_calls \<Rightarrow> Inr (tool_call # tool_calls))
           else collect_tool_calls loads matches))"

definition extract_tool_calls :: "(string \<Rightarrow> exn + pyval) \<Rightarrow> string \<Rightarrow> exn + pyval list" where
  "extract_tool_calls loads text = collect_tool_calls loads (findall_json_blocks text)"

text \<open>
  The shape of a reply that holds fenced blocks, to state what the extractor finds in it:
  some text, then blocks, each followed by more text. A block is an opening fence,
  whitespace, a body, whitespace and a closing fence. A block is well delimited when its
  body neither starts nor ends with whitespace and no closing fence starts before the
  block's own; the text around the blocks holds no opening fence (any other fence may
  stand there).
\<close>

fun has_fence :: "string \<Rightarrow> bool" where
  "has_fence [] = False"
| "has_fence (c # cs) = (starts_with closer (c # cs) \<or> has_fence cs)"

fun has_opener :: "string \<Rightarrow> bool" where
  "has_opener [] = False"
| "has_opener (c # cs) = (starts_with opener (c # cs) \<or> has_opener cs)"

type_synonym block = "string \<times> string \<times> string"

fun render_block :: "block \<Rightarrow> string" where
  "render_block (w1, body, w2) = opener @ w1 @ body @ w2 @ closer"

fun block_body :: "block \<times> string \<Rightarrow> string" where
  "block_body ((w1, body, w2), gap) = body"

fun block_ok :: "block \<Rightarrow> bool" where
  "block_ok (w1, body, w2) =
     (list_all is_space w1 \<and> list_all is_space w2 \<and>
      (body = [] \<or> (\<not> is_space (hd body) \<and> \<not> is_space (last body))) \<and>
      \<not> has_fence (body @ w2 @ ''``''))"

fun render :: "(block \<times> string) list \<Rightarrow> string" where
  "render [] = []"
| "render ((b, gap) # rest) = render_block b @ gap @ render rest"

definition well_delimited :: "string \<Rightarrow> (block \<times> string) list \<Rightarrow> bool" where
  "well_delimited gap0 blocks =
     (\<not> has_opener gap0 \<and> list_all (\<lambda>(b, gap). block_ok b \<and> \<not> has_opener gap) blocks)"

text \<open>
  The wire format in the specification's words: an object with exactly the two fields
  \<^verbatim>\<open>name\<close> (text) and \<^verbatim>\<open>parameters\<close> (object). It is compared with the test the
  extractor makes.
\<close>

fun is_text :: "pyval \<Rightarrow> bool" where
  "is_text (PStr s) = True"
| "is_text v = False"

fun is_object :: "pyval \<Rightarrow> bool" where
  "is_object (PDict d) = True"
| "is_object v = False"

fun spec_exact_tool_call :: "pyval \<Rightarrow> bool" where
  "spec_exact_tool_call (PDict d) =
     (length d = 2 \<and> has_key d ''name'' \<and> has_key d ''parameters'' \<and>
      is_text (dict_get d ''name'') \<and> is_object (dict_get d ''parameters''))"
| "spec_exact_tool_call v = False"

text \<open>
  A body is a well-formed tool call, in the specification's sense, when it parses to an
  object of that exact shape; it decodes when the parser returns a value or raises
  \<^verbatim>\<open>JSONDecodeError\<close>.
\<close>

definition well_formed :: "(string \<Rightarrow> exn + pyval) \<Rightarrow> string \<Rightarrow> bool" where
  "well_formed loads m =
     (case loads m of Inl e \<Rightarrow> False | Inr tool_call \<Rightarrow> spec_exact_tool_call tool_call)"

fun decodes :: "exn + pyval \<Rightarrow> bool" where
  "decodes (Inr v) = True"
| "decodes (Inl (JSONDecodeError t)) = True"
| "decodes (Inl e) = False"

text \<open>
  \<^verbatim>\<open>json.loads\<close> on the texts of the examples below. Of the texts outside the table the
  examples parse two: \<^verbatim>\<open>{oops\<close>, which is no JSON document, and 1100 opening brackets,
  on which the parser exceeds the interpreter's recursion limit of 1000.
\<close>

definition deep_brackets :: string where
  "deep_brackets = replicate 1100 (CHR ''['')"

definition sample_table :: "(string \<times> pyval) list" where
  \<open>sample_table =
     [(''{"name":"get_topics","parameters":{}}'',
         PDict [(''name'', PStr ''get_topics''), (''parameters'', PDict [])]),
      (''{"name":"get_topics","parameters":{},"id":7}'',
         PDict [(''name'', PStr ''get_topics''), (''parameters'', PDict []), (''id'', PInt 7)]),
      (''{"name":["x"],"parameters":{}}'',
         PDict [(''name'', PList [PStr ''x'']), (''parameters'', PDict [])]),
      (''{"name":"no_such_tool","parameters":{}}'',
         PDict [(''name'', PStr ''no_such_tool''), (''parameters'', PDict [])]),
      (''{"limit":5}'', PDict [(''limit'', PInt 5)])]\<close>

definition sample_loads :: "string \<Rightarrow> exn + pyval" where
  "sample_loads s =
     (if s = deep_brackets
      then Inl (Exception ''maximum recursion depth exceeded while decoding a JSON array'')
      else (case map_of sample_table s of
              Some v \<Rightarrow> Inr v
            | None \<Rightarrow> Inl (JSONDecodeError ''Expecting property name enclosed in double quotes'')))"

section \<open>The model gateway\<close>

text \<open>
  The HTTP exchange of lines 256 to 259 is the outside world: given the messages of the
  payload (its other fields are constants) it raises (no connection, a status that is no
  success, a body that is no JSON) or returns the decoded body.
\<close>

type_synonym 'w transport = "pyval list \<Rightarrow> 'w \<Rightarrow> (exn + pyval) \<times> 'w"

definition msg :: "string \<Rightarrow> pyval \<Rightarrow> pyval" where
  "msg role content = PDict [(''role'', PStr role), (''content'', content)]"

text \<open>
  \<^verbatim>\<open>_ollama_chat_completion\<close> (lines 230 to 273). A body with a \<^verbatim>\<open>message\<close> key is
  rewrapped (lines 263 to 269), and \<^verbatim>\<open>.get\<close> raises when that message is no dictionary;
  any other body is returned as it is. Every exception is raised again (line 273).
\<close>

definition ollama_chat_completion :: "'w transport \<Rightarrow> pyval list \<Rightarrow> 'w \<Rightarrow> (exn + pyval) \<times> 'w" where
  "ollama_chat_completion post messages w =
     (case post messages w of
        (Inl e, w') \<Rightarrow> (Inl e, w')
      | (Inr data, w') \<Rightarrow>
          (case data of
             PDict d \<Rightarrow>
               (if has_key d ''message''
                then (case dict_get d ''message'' of
                        PDict m \<Rightarrow>
                          (Inr (PDict [(''message'',
                                  PDict [(''content'', dict_get_default m ''content'' (PStr [])),
                                         (''role'', dict_get_default m ''role'' (PStr ''assistant''))])]),
                           w')
                      | other \<Rightarrow> (Inl (no_attribute_get other), w'))
                else (Inr data, w'))
           | other \<Rightarrow> (Inr data, w')))"

section \<open>The conversation orchestrator\<close>

text \<open>\<^verbatim>\<open>response.get("message", {}).get("content", "")\<close> (lines 447 and 485).\<close>

definition response_content :: "pyval \<Rightarrow> exn + pyval" where
  "response_content response =
     (case response of
        PDict r \<Rightarrow>
          (case dict_get_default r ''message'' (PDict []) of
             PDict m \<Rightarrow> Inr (dict_get_default m ''content'' (PStr []))
           | other \<Rightarrow> Inl (no_attribute_get other))
      | other \<Rightarrow> Inl (no_attribute_get other))"

text \<open>
  The loop of lines 455 to 467: the tool calls are run one after the other, in order, and
  an exception that leaves \<^verbatim>\<open>_execute_tool\<close> ends the loop.
\<close>

fun run_tool_calls :: "'w handlers \<Rightarrow> pyval list \<Rightarrow> 'w \<Rightarrow> (exn + pyval list) \<times> 'w" where
  "run_tool_calls handlers [] w = (Inr [], w)"
| "run_tool_calls handlers (tool_call # rest) w =
     (case tool_call of
        PDict tc \<Rightarrow>
          (let tool_name = dict_get tc ''name'';
               parameters = dict_get_default tc ''parameters'' (PDict [])
           in case execute_tool handlers tool_name parameters w of
                (Inl e, w') \<Rightarrow> (Inl e, w')
              | (Inr result, w') \<Rightarrow>
                  (case run_tool_calls handlers rest w' of
                     (Inl e, w'') \<Rightarrow> (Inl e, w'')
                   | (Inr tool_results, w'') \<Rightarrow>
                       (Inr (PDict [(''tool_name'', tool_name), (''parameters'', parameters),
                                    (''result'', result)] # tool_results), w'')))
      | other \<Rightarrow> (Inl (no_attribute_get other), w))"

definition apology :: string where
  "apology = ''I'' @ [CHR 0x27] @ ''m sorry, but I encountered an error while processing your request. Please try again later.''"

text \<open>
  What the agent is given: the transport, the handlers, \<^verbatim>\<open>json.loads\<close> and
  \<^verbatim>\<open>json.dumps(..., default=str)\<close> (each returns or raises), and the text of the system
  prompt (lines 378 to 435, with the date of the day read from the world).
\<close>

record 'w env =
  http_post :: "'w transport"
  tool_handlers :: "'w handlers"
  json_loads :: "string \<Rightarrow> exn + pyval"
  json_dumps :: "pyval \<Rightarrow> exn + string"
  system_content :: "'w \<Rightarrow> string"

text \<open>
  One call of the gateway, as the turn made it: the messages sent and what came back
  (\<open>Inl\<close> when the gateway raised).
\<close>

datatype event = GatewayCall "pyval list" "exn + pyval"

fun gateway_failed :: "event \<Rightarrow> bool" where
  "gateway_failed (GatewayCall messages (Inl e)) = True"
| "gateway_failed (GatewayCall messages (Inr response)) = False"

text \<open>
  The result of a turn: the value returned (\<open>Inl\<close> for an exception that leaves
  \<^verbatim>\<open>process_message\<close>), \<^verbatim>\<open>self.chat_history\<close> afterwards, the world, and the gateway
  calls made.
\<close>

record 'w outcome =
  answer :: "exn + pyval"
  history :: "pyval list"
  world :: 'w
  calls :: "event list"

text \<open>
  An exception inside the \<^verbatim>\<open>try\<close> of lines 444 to 496: \<^verbatim>\<open>except Exception\<close> returns the
  apology; an exception it does not catch leaves the call.
\<close>

definition failed :: "exn \<Rightarrow> pyval list \<Rightarrow> 'w \<Rightarrow> event list \<Rightarrow> 'w outcome" where
  "failed e chat_history w made =
     \<lparr>answer = (if is_Exception e then Inr (PStr apology) else Inl e),
      history = chat_history, world = w, calls = made\<rparr>"

text \<open>Lines 372 and 373: \<^verbatim>\<open>chat_id\<close> is looked up among the messages of the history.\<close>

fun chat_id_value :: "string option \<Rightarrow> pyval" where
  "chat_id_value None = PNone"
| "chat_id_value (Some s) = PStr s"

definition resolve_history :: "string option \<Rightarrow> pyval list \<Rightarrow> pyval list" where
  "resolve_history chat_id chat_history =
     (if chat_id_value chat_id \<notin> set chat_history then [] else chat_history)"

text \<open>Lines 470 to 473: the synthetic context message that carries the serialised results.\<close>

definition tool_results_message :: "string \<Rightarrow> pyval" where
  "tool_results_message dumped = msg ''system'' (PStr (''Tool call results: '' @ dumped))"

text \<open>\<^verbatim>\<open>re.findall\<close> on a value that is no text raises \<^verbatim>\<open>TypeError\<close>.\<close>

definition not_a_string :: "pyval \<Rightarrow> exn" where
  "not_a_string v =
     Exception (''expected string or bytes-like object, got ''
                @ [CHR 0x27] @ type_name v @ [CHR 0x27])"

text \<open>Lines 454 to 488: the tool calls, the two appended messages, the second completion.\<close>

definition synthesis ::
  "'w env \<Rightarrow> pyval list \<Rightarrow> pyval list \<Rightarrow> pyval \<Rightarrow> pyval list \<Rightarrow> 'w \<Rightarrow> event list \<Rightarrow> 'w outcome" where
  "synthesis env messages chat_history model_response tool_calls w made =
     (case run_tool_calls (tool_handlers env) tool_calls w of
        (Inl e, w') \<Rightarrow> failed e chat_history w' made
      | (Inr tool_results, w') \<Rightarrow>
          (case json_dumps env (PList tool_results) of
             Inl e \<Rightarrow> failed e chat_history w' made
           | Inr dumped \<Rightarrow>
               (let chat_history =
                      chat_history @ [msg ''assistant'' model_response,
                                      tool_results_message dumped];
                    messages2 = messages @ [msg ''assistant'' model_response,
                                            tool_results_message dumped]
                in case ollama_chat_completion (http_post env) messages2 w' of
                     (Inl e, w'') \<Rightarrow>
                       failed e chat_history w'' (made @ [GatewayCall messages2 (Inl e)])
                   | (Inr final_response, w'') \<Rightarrow>
                       (case response_content final_response of
                          Inl e \<Rightarrow>
                            failed e chat_history w''
                              (made @ [GatewayCall messages2 (Inr final_response)])
                        | Inr assistant_message \<Rightarrow>
                            \<lparr>answer = Inr assistant_message,
                             history = chat_history @ [msg ''assistant'' assistant_message],
                             world = w'',
                             calls = made @ [GatewayCall messages2 (Inr final_response)]\<rparr>))))"

text \<open>
  \<^verbatim>\<open>process_message\<close> (lines 360 to 496). Everything from line 444 on is inside the
  \<^verbatim>\<open>try\<close>; the statements before it do not raise.
\<close>

definition process_message ::
  "'w env \<Rightarrow> string \<Rightarrow> string option \<Rightarrow> pyval list \<Rightarrow> 'w \<Rightarrow> 'w outcome" where
  "process_message env message chat_id chat_history w =
     (let chat_history = resolve_history chat_id chat_history;
          system_message = msg ''system'' (PStr (system_content env w));
          chat_history = chat_history @ [msg ''user'' (PStr message)];
          messages = system_message # chat_history
      in case ollama_chat_completion (http_post env) messages w of
           (Inl e, w') \<Rightarrow> failed e chat_history w' [GatewayCall messages (Inl e)]
         | (Inr response, w') \<Rightarrow>
             (case response_content response of
                Inl e \<Rightarrow> failed e chat_history w' [GatewayCall messages (Inr response)]
              | Inr model_response \<Rightarrow>
                  (case model_response of
                     PStr text \<Rightarrow>
                       (case extract_tool_calls (json_loads env) text of
                          Inl e \<Rightarrow> failed e chat_history w' [GatewayCall messages (Inr response)]
                        | Inr tool_calls \<Rightarrow>
                            (if tool_calls \<noteq> []
                             then synthesis env messages chat_history model_response tool_calls w'
                                    [GatewayCall messages (Inr response)]
                             else \<lparr>answer = Inr model_response,
                                   history = chat_history @ [msg ''assistant'' model_response],
                                   world = w',
                                   calls = [GatewayCall messages (Inr response)]\<rparr>))
                   | other \<Rightarrow>
                       failed (not_a_string other) chat_history w'
                         [GatewayCall messages (Inr response)])))"

text \<open>\<^verbatim>\<open>reset_chat\<close> (lines 498 to 500).\<close>

definition reset_chat :: "pyval list \<Rightarrow> pyval list" where
  "reset_chat chat_history = []"

section \<open>A small world to run the agent in\<close>

text \<open>
  The world counts the HTTP exchanges made so far, and the backend answers the n-th one
  with \<open>replies n\<close>. Every handler call ends as \<open>handler\<close> says; the system prompt and the
  serialised results are short fixed texts.
\<close>

definition assistant_reply :: "pyval \<Rightarrow> exn + pyval" where
  "assistant_reply content =
     Inr (PDict [(''message'', PDict [(''role'', PStr ''assistant''), (''content'', content)])])"

definition sample_env :: "(nat \<Rightarrow> exn + pyval) \<Rightarrow> exn + pyval \<Rightarrow> nat env" where
  "sample_env replies handler =
     \<lparr>http_post = (\<lambda>messages w. (replies w, Suc w)),
      tool_handlers = (\<lambda>name parameters w. (handler, w)),
      json_loads = sample_loads,
      json_dumps = (\<lambda>v. Inr ''RESULTS''),
      system_content = (\<lambda>w. ''SYSTEM'')\<rparr>"

definition topic_names :: "exn + pyval" where
  "topic_names = Inr (PList [PStr ''Energy''])"

text \<open>A reply that is one fenced block, and the bodies of the examples.\<close>

definition fenced :: "string \<Rightarrow> string" where
  "fenced body = opener @ '' '' @ body @ '' '' @ closer"

definition topics_call :: string where
  \<open>topics_call = ''{"name":"get_topics","parameters":{}}''\<close>

definition list_name_call :: string where
  \<open>list_name_call = ''{"name":["x"],"parameters":{}}''\<close>

text \<open>Backends for the examples: what the n-th HTTP exchange gives.\<close>

definition backend_down :: "nat \<Rightarrow> exn + pyval" where
  "backend_down n = Inl (Exception ''Cannot connect to host'')"

definition backend_hello :: "nat \<Rightarrow> exn + pyval" where
  "backend_hello n = assistant_reply (PStr ''Hello'')"

definition backend_tool_then :: "exn + pyval \<Rightarrow> nat \<Rightarrow> exn + pyval" where
  "backend_tool_then second n =
     (if n = 0 then assistant_reply (PStr (fenced topics_call)) else second)"

definition backend_list_name :: "nat \<Rightarrow> exn + pyval" where
  "backend_list_name n =
     (if n = 0 then assistant_reply (PStr (fenced list_name_call))
      else assistant_reply (PStr ''Hello''))"

section \<open>Notions to state the properties of a turn\<close>

text \<open>
  Names for two values of a turn, to state its properties: the history once the user's
  message is appended (lines 372 to 439), and the messages sent at the first completion
  (line 442).
\<close>

definition turn_history :: "string option \<Rightarrow> pyval list \<Rightarrow> string \<Rightarrow> pyval list" where
  "turn_history chat_id chat_history message =
     resolve_history chat_id chat_history @ [msg ''user'' (PStr message)]"

definition prompt :: "'w env \<Rightarrow> 'w \<Rightarrow> pyval list \<Rightarrow> pyval list" where
  "prompt env w chat_history = msg ''system'' (PStr (system_content env w)) # chat_history"


subsection \<open>More backends for the examples\<close>

text \<open>A backend whose exchange is cancelled: \<^verbatim>\<open>asyncio.CancelledError\<close>, with an empty text.\<close>

definition backend_cancelled :: "nat \<Rightarrow> exn + pyval" where
  "backend_cancelled n = Inl (BaseException [])"


text \<open>What the gateway returns for a backend message with the given content.\<close>

definition wrapped :: "pyval \<Rightarrow> pyval" where
  "wrapped content =
     PDict [(''message'', PDict [(''content'', content), (''role'', PStr ''assistant'')])]"

section \<open>Properties of the projection\<close>

lemma map_of_dict_set: "map_of (dict_set d k v) k' = (if k' = k then Some v else map_of d k')"
  by (induction d k v rule: dict_set.induct) auto

lemma map_of_copy_if_true:
  "map_of (copy_if_true doc k sd) k' =
     (if k' = k \<and> truthy (dict_get doc k) then Some (dict_get doc k) else map_of sd k')"
  by (simp add: copy_if_true_def map_of_dict_set)

lemma map_of_copy_if_present:
  "map_of (copy_if_present doc k sd) k' =
     (if k' = k \<and> has_key doc k then Some (dict_get doc k) else map_of sd k')"
  by (simp add: copy_if_present_def map_of_dict_set)

lemma map_of_simplify_doc:
  "map_of (simplify_doc doc) k =
     (if k = ''topics'' \<and> has_key doc ''topics'' then Some (dict_get doc ''topics'')
      else if k = ''agencies'' \<and> has_key doc ''agencies'' then Some (dict_get doc ''agencies'')
      else if k = ''executive_order_number'' \<and> truthy (dict_get doc ''executive_order_number'')
        then Some (dict_get doc ''executive_order_number'')
      else if k = ''presidential_document_type'' \<and> truthy (dict_get doc ''presidential_document_type'')
        then Some (dict_get doc ''presidential_document_type'')
      else map_of [(''id'', dict_get doc ''id''),
            (''document_number'', dict_get doc ''document_number''),
            (''document_type'', dict_get doc ''document_type''),
            (''title'', dict_get doc ''title''),
            (''publication_date'', dict_get doc ''publication_date''),
            (''abstract'', dict_get doc ''abstract'')] k)"
  unfolding simplify_doc_def Let_def
  by (simp only: map_of_copy_if_true map_of_copy_if_present)


lemma get_simplify_required:
  "dict_get (simplify_doc doc) ''id'' = dict_get doc ''id''"
  "dict_get (simplify_doc doc) ''document_number'' = dict_get doc ''document_number''"
  "dict_get (simplify_doc doc) ''document_type'' = dict_get doc ''document_type''"
  "dict_get (simplify_doc doc) ''title'' = dict_get doc ''title''"
  "dict_get (simplify_doc doc) ''publication_date'' = dict_get doc ''publication_date''"
  "dict_get (simplify_doc doc) ''abstract'' = dict_get doc ''abstract''"
  by (simp_all add: dict_get_def [of "simplify_doc doc"] dict_get_default_def [of "simplify_doc doc"]
        map_of_simplify_doc)

lemma get_simplify_optional:
  "dict_get (simplify_doc doc) ''presidential_document_type'' =
     (if truthy (dict_get doc ''presidential_document_type'')
      then dict_get doc ''presidential_document_type'' else PNone)"
  "dict_get (simplify_doc doc) ''executive_order_number'' =
     (if truthy (dict_get doc ''executive_order_number'')
      then dict_get doc ''executive_order_number'' else PNone)"
  "has_key (simplify_doc doc) ''agencies'' = has_key doc ''agencies''"
  "has_key (simplify_doc doc) ''topics'' = has_key doc ''topics''"
  "dict_get (simplify_doc doc) ''agencies'' = dict_get doc ''agencies''"
  "dict_get (simplify_doc doc) ''topics'' = dict_get doc ''topics''"
       apply (simp_all add: dict_get_def [of "simplify_doc doc"] dict_get_default_def [of "simplify_doc doc"]
        has_key_def [of "simplify_doc doc"] map_of_simplify_doc)
   apply (simp_all add: dict_get_def dict_get_default_def has_key_def split: option.splits)
  done

lemma copy_if_true_simplify:
  "copy_if_true (simplify_doc doc) ''presidential_document_type'' sd
     = copy_if_true doc ''presidential_document_type'' sd"
  "copy_if_true (simplify_doc doc) ''executive_order_number'' sd
     = copy_if_true doc ''executive_order_number'' sd"
  by (simp_all add: copy_if_true_def get_simplify_optional)

lemma copy_if_present_simplify:
  "copy_if_present (simplify_doc doc) ''agencies'' sd = copy_if_present doc ''agencies'' sd"
  "copy_if_present (simplify_doc doc) ''topics'' sd = copy_if_present doc ''topics'' sd"
  by (simp_all add: copy_if_present_def get_simplify_optional)

lemma simplify_doc_idem: "simplify_doc (simplify_doc doc) = simplify_doc doc"
proof -
  define s where "s = simplify_doc doc"
  have reads:
    "dict_get s ''id'' = dict_get doc ''id''"
    "dict_get s ''document_number'' = dict_get doc ''document_number''"
    "dict_get s ''document_type'' = dict_get doc ''document_type''"
    "dict_get s ''title'' = dict_get doc ''title''"
    "dict_get s ''publication_date'' = dict_get doc ''publication_date''"
    "dict_get s ''abstract'' = dict_get doc ''abstract''"
    "\<And>sd. copy_if_true s ''presidential_document_type'' sd
       = copy_if_true doc ''presidential_document_type'' sd"
    "\<And>sd. copy_if_true s ''executive_order_number'' sd
       = copy_if_true doc ''executive_order_number'' sd"
    "\<And>sd. copy_if_present s ''agencies'' sd = copy_if_present doc ''agencies'' sd"
    "\<And>sd. copy_if_present s ''topics'' sd = copy_if_present doc ''topics'' sd"
    unfolding s_def
    by (rule get_simplify_required copy_if_true_simplify copy_if_present_simplify)+
  have "simplify_doc s = simplify_doc doc"
    unfolding simplify_doc_def Let_def by (simp only: reads)
  then show ?thesis by (simp only: s_def)
qed

lemma keys_dict_set: "fst ` set (dict_set d k v) = insert k (fst ` set d)"
  by (induction d k v rule: dict_set.induct) auto

lemma keys_copy_if_true:
  "fst ` set sd \<subseteq> S \<Longrightarrow> k \<in> S \<Longrightarrow> fst ` set (copy_if_true doc k sd) \<subseteq> S"
  by (simp add: copy_if_true_def keys_dict_set)

lemma keys_copy_if_present:
  "fst ` set sd \<subseteq> S \<Longrightarrow> k \<in> S \<Longrightarrow> fst ` set (copy_if_present doc k sd) \<subseteq> S"
  by (simp add: copy_if_present_def keys_dict_set)

lemma simplify_doc_keys: "fst ` set (simplify_doc doc) \<subseteq> set summary_fields"
  unfolding simplify_doc_def Let_def
  apply (intro keys_copy_if_present keys_copy_if_true)
      apply (simp_all add: summary_fields_def required_fields_def)
  done

lemma simplify_doc_required:
  "k \<in> set required_fields \<Longrightarrow> map_of (simplify_doc doc) k = Some (dict_get doc k)"
  by (auto simp add: required_fields_def map_of_simplify_doc)

text \<open>
  C6. The projection is idempotent and total: projecting a projected list changes nothing;
  the output has one entry per input record; every entry carries each of the six required
  fields, with the value \<^verbatim>\<open>doc.get\<close> reads from the input record (\<open>None\<close> when the
  record omits the field); and every key of an entry is one of the ten summary fields,
  so any other field of the input is dropped.
\<close>

theorem project_idempotent_total:
  "project (project docs) = project docs \<and>
   length (project docs) = length docs \<and>
   (\<forall>i < length docs. \<forall>k \<in> set required_fields.
      map_of (project docs ! i) k = Some (dict_get (docs ! i) k) \<and>
      (\<not> has_key (docs ! i) k \<longrightarrow> map_of (project docs ! i) k = Some PNone)) \<and>
   (\<forall>d \<in> set (project docs). fst ` set d \<subseteq> set summary_fields)"
proof -
  have idem: "project (project docs) = project docs"
    by (simp add: project_def simplify_doc_idem)
  have len: "length (project docs) = length docs"
    by (simp add: project_def)
  have req: "\<forall>i < length docs. \<forall>k \<in> set required_fields.
      map_of (project docs ! i) k = Some (dict_get (docs ! i) k) \<and>
      (\<not> has_key (docs ! i) k \<longrightarrow> map_of (project docs ! i) k = Some PNone)"
  proof (intro allI impI ballI conjI)
    fix i k
    assume i: "i < length docs" and k: "k \<in> set required_fields"
    show "map_of (project docs ! i) k = Some (dict_get (docs ! i) k)"
      using i k by (simp add: project_def simplify_doc_required)
    assume "\<not> has_key (docs ! i) k"
    then have "dict_get (docs ! i) k = PNone"
      by (simp add: has_key_def dict_get_def dict_get_default_def)
    then show "map_of (project docs ! i) k = Some PNone"
      using i k by (simp add: project_def simplify_doc_required)
  qed
  have keys: "\<forall>d \<in> set (project docs). fst ` set d \<subseteq> set summary_fields"
    using simplify_doc_keys by (auto simp add: project_def)
  from idem len req keys show ?thesis by blast
qed

theorem project_idempotent_total_witness:
  "project (project [[(''title'', PStr ''Notice''), (''html_url'', PStr ''u'')]])
     = project [[(''title'', PStr ''Notice''), (''html_url'', PStr ''u'')]] \<and>
   project [[(''title'', PStr ''Notice''), (''html_url'', PStr ''u'')]]
     = [[(''id'', PNone), (''document_number'', PNone), (''document_type'', PNone),
         (''title'', PStr ''Notice''), (''publication_date'', PNone), (''abstract'', PNone)]]"
  using project_idempotent_total [of "[[(''title'', PStr ''Notice''), (''html_url'', PStr ''u'')]]"]
  by (simp add: project_def simplify_doc_def Let_def copy_if_true_def copy_if_present_def
        dict_get_def dict_get_default_def has_key_def)

section \<open>Properties of the dispatcher\<close>

lemma simplify_all_dicts: "simplify_all (map PDict docs) = Inr (map PDict (project docs))"
  by (induction docs) (simp_all add: project_def)

lemma is_document_list_iff:
  "is_document_list result \<longleftrightarrow>
     (\<exists>d rest. result = PList (PDict d # rest) \<and> has_key d ''document_number'')"
  by (induction result rule: is_document_list.induct) simp_all

lemma execute_tool_registered:
  assumes "name \<in> set available_tools" and "handlers name parameters w = (Inr result, w')"
  shows "execute_tool handlers (PStr name) parameters w =
     (if is_document_list result
      then (case result of
              PList docs \<Rightarrow>
                (case simplify_all docs of
                   Inl e \<Rightarrow>
                     (Inr (error_payload
                        (''Error executing tool '' @ name @ '': '' @ exn_text e)), w')
                 | Inr simplified_result \<Rightarrow> (Inr (PList simplified_result), w'))
            | other \<Rightarrow> (Inr result, w'))
      else (Inr result, w'))"
  using assms by (simp add: execute_tool_def)

text \<open>
  C10. For a registered capability whose handler returns normally, the dispatcher
  summarises the result exactly when it is a non-empty list whose first element is a
  dictionary with the key \<^verbatim>\<open>document_number\<close>. Any other result (an empty list, a list
  whose first element lacks the key, whatever the later elements are) is returned
  unmodified; a list of records that passes the test is returned projected.
\<close>

theorem dispatcher_projection_gate:
  assumes "name \<in> set available_tools"
    and "handlers name parameters w = (Inr result, w')"
  shows "(is_document_list result \<longleftrightarrow>
           (\<exists>d rest. result = PList (PDict d # rest) \<and> has_key d ''document_number'')) \<and>
         (\<not> is_document_list result \<longrightarrow>
            execute_tool handlers (PStr name) parameters w = (Inr result, w')) \<and>
         (\<forall>docs. is_document_list result \<and> result = PList (map PDict docs) \<longrightarrow>
            execute_tool handlers (PStr name) parameters w
              = (Inr (PList (map PDict (project docs))), w'))"
proof (intro conjI allI impI)
  show "is_document_list result \<longleftrightarrow>
          (\<exists>d rest. result = PList (PDict d # rest) \<and> has_key d ''document_number'')"
    by (rule is_document_list_iff)
next
  assume "\<not> is_document_list result"
  then show "execute_tool handlers (PStr name) parameters w = (Inr result, w')"
    using assms execute_tool_registered [of name handlers parameters w result w'] by simp
next
  fix docs
  assume a: "is_document_list result \<and> result = PList (map PDict docs)"
  then have r: "result = PList (map PDict docs)"
    and g: "is_document_list (PList (map PDict docs))"
    by blast+
  have "handlers name parameters w = (Inr (PList (map PDict docs)), w')"
    using assms(2) r by simp
  from execute_tool_registered [of name handlers parameters w "PList (map PDict docs)" w',
      OF assms(1) this]
  show "execute_tool handlers (PStr name) parameters w
              = (Inr (PList (map PDict (project docs))), w')"
    using g by (simp add: simplify_all_dicts)
qed

theorem dispatcher_projection_gate_witness:
  "execute_tool
     (\<lambda>name parameters w.
        (Inr (PList [PDict [(''title'', PStr ''a'')], PDict [(''document_number'', PStr ''d'')]]),
         Suc w))
     (PStr ''get_recent_documents'') (PDict []) (0::nat)
   = (Inr (PList [PDict [(''title'', PStr ''a'')], PDict [(''document_number'', PStr ''d'')]]),
      Suc 0)"
  using dispatcher_projection_gate
    [of "''get_recent_documents''"
        "\<lambda>name parameters w.
           (Inr (PList [PDict [(''title'', PStr ''a'')], PDict [(''document_number'', PStr ''d'')]]),
            Suc w)"
        "PDict []" "0::nat"
        "PList [PDict [(''title'', PStr ''a'')], PDict [(''document_number'', PStr ''d'')]]"
        "Suc 0"]
  by (simp add: available_tools_def has_key_def)

section \<open>Properties of the extractor\<close>

lemma starts_with_iff: "starts_with p s \<longleftrightarrow> (\<exists>t. s = p @ t)"
  unfolding starts_with_def
  by (metis append_eq_conv_conj append_take_drop_id)

lemma render_starts: "render blocks = [] \<or> starts_with opener (render blocks)"
  by (induction blocks rule: render.induct) (auto simp add: starts_with_iff)

lemma no_opener_across_gap:
  assumes "\<not> starts_with opener (c # g)" and "rest = [] \<or> starts_with opener rest"
  shows "\<not> starts_with opener (c # g @ rest)"
  using assms
  by (auto simp add: starts_with_iff opener_def append_eq_Cons_conv)

lemma findall_gap:
  "\<not> has_opener g \<Longrightarrow> rest = [] \<or> starts_with opener rest \<Longrightarrow>
   findall_json_blocks (g @ rest) = findall_json_blocks rest"
proof (induction g)
  case Nil
  then show ?case by simp
next
  case (Cons c g)
  then have "\<not> starts_with opener (c # g @ rest)"
    using no_opener_across_gap [of c g rest] by simp
  with Cons show ?case by simp
qed

lemma no_closer_before_fence:
  assumes "\<not> starts_with closer (c # x @ ''``'')"
  shows "\<not> starts_with closer (c # x @ closer @ rest)"
proof (cases x)
  case Nil
  with assms show ?thesis by (simp add: starts_with_def closer_def)
next
  case (Cons a x')
  show ?thesis
  proof (cases x')
    case Nil
    with Cons assms show ?thesis by (simp add: starts_with_def closer_def)
  next
    case (Cons b x'')
    with \<open>x = a # x'\<close> assms show ?thesis by (simp add: starts_with_def closer_def)
  qed
qed

lemma split_at_own_closer:
  "\<not> has_fence (x @ ''``'') \<Longrightarrow> split_at_closer (x @ closer @ rest) = Some (x, rest)"
proof (induction x)
  case Nil
  then show ?case by (simp add: starts_with_def closer_def)
next
  case (Cons c x)
  then have "\<not> starts_with closer (c # x @ closer @ rest)"
    using no_closer_before_fence [of c x rest] by simp
  with Cons show ?case by simp
qed

lemma fence_not_space: "\<not> is_space (CHR 0x60)"
  by (simp add: is_space_def whitespace_chars_def)

lemma dropWhile_spaces:
  "list_all is_space w \<Longrightarrow> dropWhile is_space (w @ ys) = dropWhile is_space ys"
  by (simp add: list_all_iff)

lemma rstrip_body:
  assumes "list_all is_space w2" and "body = [] \<or> \<not> is_space (last body)"
  shows "rstrip (body @ w2) = body"
proof -
  have "dropWhile is_space (rev w2 @ rev body) = dropWhile is_space (rev body)"
    using assms(1) dropWhile_spaces [of "rev w2" "rev body"] by simp
  moreover have "dropWhile is_space (rev body) = rev body"
    using assms(2) by (cases body rule: rev_cases) simp_all
  ultimately show ?thesis by (simp add: rstrip_def)
qed

lemma findall_block:
  assumes "block_ok (w1, body, w2)"
  shows "findall_json_blocks (render_block (w1, body, w2) @ rest) = body # findall_json_blocks rest"
proof -
  from assms have w1: "list_all is_space w1" and w2: "list_all is_space w2"
    and ends: "body = [] \<or> (\<not> is_space (hd body) \<and> \<not> is_space (last body))"
    and nf: "\<not> has_fence (body @ w2 @ ''``'')"
    by simp_all
  let ?after = "w1 @ body @ w2 @ closer @ rest"
  have skip: "dropWhile is_space ?after = dropWhile is_space (body @ w2 @ closer @ rest)"
    using w1 by (rule dropWhile_spaces)
  show ?thesis
  proof (cases "body = []")
    case True
    have "dropWhile is_space (w2 @ closer @ rest) = dropWhile is_space (closer @ rest)"
      using w2 by (rule dropWhile_spaces)
    also have "\<dots> = closer @ rest"
      using fence_not_space by (simp add: closer_def)
    finally have "dropWhile is_space ?after = closer @ rest"
      using skip True by simp
    moreover have "split_at_closer (closer @ rest) = Some ([], rest)"
      using split_at_own_closer [of "[]" rest] by (simp add: starts_with_def closer_def)
    ultimately show ?thesis
      using True by (simp add: opener_def starts_with_def rstrip_def)
  next
    case False
    with ends have "\<not> is_space (hd body)" and last: "\<not> is_space (last body)"
      by simp_all
    with False have "dropWhile is_space (body @ w2 @ closer @ rest) = body @ w2 @ closer @ rest"
      by (cases body) simp_all
    with skip have "dropWhile is_space ?after = (body @ w2) @ closer @ rest"
      by simp
    moreover have "split_at_closer ((body @ w2) @ closer @ rest) = Some (body @ w2, rest)"
      using nf split_at_own_closer [of "body @ w2" rest] by simp
    moreover have "rstrip (body @ w2) = body"
      using w2 last by (simp add: rstrip_body)
    ultimately show ?thesis
      by (simp add: opener_def starts_with_def)
  qed
qed

lemma findall_render:
  "well_delimited gap0 blocks \<Longrightarrow>
   findall_json_blocks (gap0 @ render blocks) = map block_body blocks"
proof (induction blocks arbitrary: gap0)
  case Nil
  then show ?case
    using findall_gap [of gap0 "[]"] by (simp add: well_delimited_def)
next
  case (Cons bg blocks)
  obtain w1 body w2 gap where bg: "bg = ((w1, body, w2), gap)"
    by (metis prod.collapse)
  from Cons.prems bg have g0: "\<not> has_opener gap0" and ok: "block_ok (w1, body, w2)"
    and rest: "well_delimited gap blocks"
    by (simp_all add: well_delimited_def)
  have "starts_with opener (render (bg # blocks))"
    using bg by (simp add: starts_with_iff)
  then have "findall_json_blocks (gap0 @ render (bg # blocks))
      = findall_json_blocks (render (bg # blocks))"
    using g0 findall_gap [of gap0 "render (bg # blocks)"] by simp
  also have "\<dots> = findall_json_blocks (render_block (w1, body, w2) @ (gap @ render blocks))"
    using bg by simp
  also have "\<dots> = body # findall_json_blocks (gap @ render blocks)"
    using ok by (rule findall_block)
  also have "\<dots> = body # map block_body blocks"
    using Cons.IH [OF rest] by simp
  finally show ?case using bg by simp
qed

lemma extract_render:
  "well_delimited gap0 blocks \<Longrightarrow>
   extract_tool_calls loads (gap0 @ render blocks) = collect_tool_calls loads (map block_body blocks)"
  by (simp add: extract_tool_calls_def findall_render)

lemma collect_tool_calls_decoding:
  "\<forall>m \<in> set ms. decodes (loads m) \<Longrightarrow>
   collect_tool_calls loads ms
     = Inr (map (projr \<circ> loads)
              (filter (\<lambda>m. \<exists>d. loads m = Inr (PDict d) \<and> has_key d ''name'' \<and> has_key d ''parameters'')
                 ms))"
proof (induction ms)
  case Nil
  then show ?case by simp
next
  case (Cons m ms)
  then have ih: "collect_tool_calls loads ms
     = Inr (map (projr \<circ> loads)
              (filter (\<lambda>m. \<exists>d. loads m = Inr (PDict d) \<and> has_key d ''name'' \<and> has_key d ''parameters'')
                 ms))"
    and dec: "decodes (loads m)"
    by simp_all
  show ?case
  proof (cases "loads m")
    case (Inl e)
    with dec obtain t where "e = JSONDecodeError t"
      by (cases e) simp_all
    with Inl ih show ?thesis by simp
  next
    case (Inr v)
    with ih show ?thesis
      by (cases v) (simp_all add: is_tool_call_def)
  qed
qed

lemma collect_tool_calls_raises:
  assumes "loads m = Inl e" and "\<not> decodes (loads m)"
  shows "collect_tool_calls loads (m # ms) = Inl e"
  using assms by (cases e) simp_all

lemma spec_exact_has_both_keys:
  "spec_exact_tool_call v \<Longrightarrow> \<exists>d. v = PDict d \<and> has_key d ''name'' \<and> has_key d ''parameters''"
  by (cases v) simp_all

lemma deep_brackets_head: "deep_brackets = CHR ''['' # replicate 1099 (CHR ''['')"
proof -
  have "(1100::nat) = Suc 1099" by simp
  then show ?thesis
    unfolding deep_brackets_def by (simp only: replicate_Suc)
qed

lemma sample_loads_table:
  "hd s \<noteq> CHR ''['' \<Longrightarrow>
   sample_loads s =
     (case map_of sample_table s of
        Some v \<Rightarrow> Inr v
      | None \<Rightarrow> Inl (JSONDecodeError ''Expecting property name enclosed in double quotes''))"
  by (auto simp add: sample_loads_def deep_brackets_head)

lemma sample_loads_deep:
  "sample_loads deep_brackets
     = Inl (Exception ''maximum recursion depth exceeded while decoding a JSON array'')"
  by (simp add: sample_loads_def)

lemma has_fence_replicate:
  "c \<noteq> CHR 0x60 \<Longrightarrow> has_fence (replicate n c @ s) = has_fence s"
  by (induction n) (simp_all add: starts_with_def closer_def)

lemma deep_brackets_block: "block_ok ('' '', deep_brackets, '' '')"
proof -
  have nf: "\<not> has_fence (deep_brackets @ '' '' @ ''``'')"
    unfolding deep_brackets_def
    by (simp add: has_fence_replicate starts_with_def closer_def)
  have ends: "hd deep_brackets = CHR ''[''" "last deep_brackets = CHR ''[''"
    by (simp_all add: deep_brackets_def)
  have sp: "list_all is_space '' ''" "\<not> is_space (CHR ''['')"
    by (simp_all add: is_space_def whitespace_chars_def)
  show ?thesis
    unfolding block_ok.simps using nf ends sp by (simp only: simp_thms)
qed

lemma filter_length_mono:
  "(\<And>x. P x \<Longrightarrow> Q x) \<Longrightarrow> length (filter P xs) \<le> length (filter Q xs)"
  by (induction xs) auto

text \<open>
  C3 as the code has it. In a reply made of well-delimited fenced blocks with no opening
  fence in the text around them, where every body either parses or fails with
  \<^verbatim>\<open>JSONDecodeError\<close>, the extractor returns the parsed bodies of exactly the blocks whose
  body parses to an object that has the keys \<^verbatim>\<open>name\<close> and \<^verbatim>\<open>parameters\<close>, in the
  order of the blocks in the text. Every block that is well formed in the
  specification's sense is among them, so at least as many requests are returned as
  there are well-formed blocks. A body that fails with \<^verbatim>\<open>JSONDecodeError\<close>, or parses to a
  value without the two keys, contributes nothing and does not stop the scan; the result
  may be the empty list.
\<close>

theorem extractor_returns_blocks_with_both_keys:
  assumes "well_delimited gap0 blocks"
    and "\<forall>m \<in> set (map block_body blocks). decodes (loads m)"
  shows "extract_tool_calls loads (gap0 @ render blocks)
           = Inr (map (projr \<circ> loads)
                    (filter (\<lambda>m. \<exists>d. loads m = Inr (PDict d) \<and> has_key d ''name''
                                      \<and> has_key d ''parameters'')
                       (map block_body blocks))) \<and>
         (\<forall>m. well_formed loads m \<longrightarrow>
                (\<exists>d. loads m = Inr (PDict d) \<and> has_key d ''name'' \<and> has_key d ''parameters'')) \<and>
         length (filter (well_formed loads) (map block_body blocks))
           \<le> length (filter (\<lambda>m. \<exists>d. loads m = Inr (PDict d) \<and> has_key d ''name''
                                      \<and> has_key d ''parameters'')
                        (map block_body blocks))"
proof -
  have kept: "\<And>m. well_formed loads m \<Longrightarrow>
      \<exists>d. loads m = Inr (PDict d) \<and> has_key d ''name'' \<and> has_key d ''parameters''"
  proof -
    fix m
    assume "well_formed loads m"
    then obtain v where "loads m = Inr v" and "spec_exact_tool_call v"
      by (auto simp add: well_formed_def split: sum.splits)
    then show "\<exists>d. loads m = Inr (PDict d) \<and> has_key d ''name'' \<and> has_key d ''parameters''"
      using spec_exact_has_both_keys [of v] by auto
  qed
  have "extract_tool_calls loads (gap0 @ render blocks)
          = collect_tool_calls loads (map block_body blocks)"
    using assms(1) by (rule extract_render)
  also have "\<dots> = Inr (map (projr \<circ> loads)
                    (filter (\<lambda>m. \<exists>d. loads m = Inr (PDict d) \<and> has_key d ''name''
                                      \<and> has_key d ''parameters'')
                       (map block_body blocks)))"
    using assms(2) by (rule collect_tool_calls_decoding)
  finally have eq: "extract_tool_calls loads (gap0 @ render blocks)
           = Inr (map (projr \<circ> loads)
                    (filter (\<lambda>m. \<exists>d. loads m = Inr (PDict d) \<and> has_key d ''name''
                                      \<and> has_key d ''parameters'')
                       (map block_body blocks)))" .
  have len: "length (filter (well_formed loads) (map block_body blocks))
           \<le> length (filter (\<lambda>m. \<exists>d. loads m = Inr (PDict d) \<and> has_key d ''name''
                                      \<and> has_key d ''parameters'')
                        (map block_body blocks))"
    by (rule filter_length_mono) (rule kept)
  show ?thesis
  proof (intro conjI allI impI)
    show "extract_tool_calls loads (gap0 @ render blocks)
           = Inr (map (projr \<circ> loads)
                    (filter (\<lambda>m. \<exists>d. loads m = Inr (PDict d) \<and> has_key d ''name''
                                      \<and> has_key d ''parameters'')
                       (map block_body blocks)))"
      by (rule eq)
  next
    fix m
    assume "well_formed loads m"
    then show "\<exists>d. loads m = Inr (PDict d) \<and> has_key d ''name'' \<and> has_key d ''parameters''"
      by (rule kept)
  next
    show "length (filter (well_formed loads) (map block_body blocks))
           \<le> length (filter (\<lambda>m. \<exists>d. loads m = Inr (PDict d) \<and> has_key d ''name''
                                      \<and> has_key d ''parameters'')
                        (map block_body blocks))"
      by (rule len)
  qed
qed

theorem extractor_returns_blocks_with_both_keys_witness:
  \<open>well_delimited ''A ```py x``` ''
     [(('' '', ''{oops'', '' ''), '' B ''),
      (('' '', ''{"name":"get_topics","parameters":{}}'', '' ''), '' C ''),
      (('''', ''{"limit":5}'', ''''), '''')] \<and>
   ''A ```py x``` '' @ render
     [(('' '', ''{oops'', '' ''), '' B ''),
      (('' '', ''{"name":"get_topics","parameters":{}}'', '' ''), '' C ''),
      (('''', ''{"limit":5}'', ''''), '''')]
    = ''A ```py x``` ```json {oops ``` B ```json {"name":"get_topics","parameters":{}} ``` C ```json{"limit":5}```'' \<and>
   extract_tool_calls sample_loads
     (''A ```py x``` '' @ render
       [(('' '', ''{oops'', '' ''), '' B ''),
        (('' '', ''{"name":"get_topics","parameters":{}}'', '' ''), '' C ''),
        (('''', ''{"limit":5}'', ''''), '''')])
    = Inr [PDict [(''name'', PStr ''get_topics''), (''parameters'', PDict [])]]\<close>
proof -
  have wd: \<open>well_delimited ''A ```py x``` ''
     [(('' '', ''{oops'', '' ''), '' B ''),
      (('' '', ''{"name":"get_topics","parameters":{}}'', '' ''), '' C ''),
      (('''', ''{"limit":5}'', ''''), '''')]\<close>
    by (simp add: well_delimited_def is_space_def whitespace_chars_def starts_with_def
          closer_def opener_def)
  have dec: \<open>\<forall>m \<in> set (map block_body
     [(('' '', ''{oops'', '' ''), '' B ''),
      (('' '', ''{"name":"get_topics","parameters":{}}'', '' ''), '' C ''),
      (('''', ''{"limit":5}'', ''''), '''')]). decodes (sample_loads m)\<close>
    by (simp add: sample_loads_table sample_table_def)
  have lit: \<open>''A ```py x``` '' @ render
     [(('' '', ''{oops'', '' ''), '' B ''),
      (('' '', ''{"name":"get_topics","parameters":{}}'', '' ''), '' C ''),
      (('''', ''{"limit":5}'', ''''), '''')]
    = ''A ```py x``` ```json {oops ``` B ```json {"name":"get_topics","parameters":{}} ``` C ```json{"limit":5}```''\<close>
    by (simp add: opener_def closer_def)
  have res: \<open>map (projr \<circ> sample_loads)
      (filter (\<lambda>m. \<exists>d. sample_loads m = Inr (PDict d) \<and> has_key d ''name''
                         \<and> has_key d ''parameters'')
        (map block_body
          [(('' '', ''{oops'', '' ''), '' B ''),
           (('' '', ''{"name":"get_topics","parameters":{}}'', '' ''), '' C ''),
           (('''', ''{"limit":5}'', ''''), '''')]))
    = [PDict [(''name'', PStr ''get_topics''), (''parameters'', PDict [])]]\<close>
    by (simp add: sample_loads_table sample_table_def has_key_def)
  from extractor_returns_blocks_with_both_keys [OF wd dec] wd lit res
  show ?thesis by (simp only: simp_thms)
qed

text \<open>
  C3 as stated fails in two ways. The reply
  \<^verbatim>\<open>```json {"name":"get_topics","parameters":{},"id":7} ```\<close> holds no well-formed block (the
  object has a third key) and one request is returned. The reply made of a well-formed
  block followed by a block of 1100 opening brackets holds one well-formed block and no
  request is returned: the parser's \<^verbatim>\<open>RecursionError\<close> leaves the extractor.
\<close>

theorem extractor_count_counterexample:
  \<open>filter (well_formed sample_loads)
      (map block_body [(('' '', ''{"name":"get_topics","parameters":{},"id":7}'', '' ''), [])]) = [] \<and>
   extract_tool_calls sample_loads
      ([] @ render [(('' '', ''{"name":"get_topics","parameters":{},"id":7}'', '' ''), [])])
     = Inr [PDict [(''name'', PStr ''get_topics''), (''parameters'', PDict []), (''id'', PInt 7)]] \<and>
   filter (well_formed sample_loads)
      (map block_body [(('' '', ''{"name":"get_topics","parameters":{}}'', '' ''), '' ''),
                       (('' '', deep_brackets, '' ''), [])])
     = [''{"name":"get_topics","parameters":{}}''] \<and>
   extract_tool_calls sample_loads
      ([] @ render [(('' '', ''{"name":"get_topics","parameters":{}}'', '' ''), '' ''),
                    (('' '', deep_brackets, '' ''), [])])
     = Inl (Exception ''maximum recursion depth exceeded while decoding a JSON array'')\<close>
proof -
  have wd1: \<open>well_delimited []
      [(('' '', ''{"name":"get_topics","parameters":{},"id":7}'', '' ''), [])]\<close>
    by (simp add: well_delimited_def is_space_def whitespace_chars_def starts_with_def closer_def)
  have wd2: \<open>well_delimited []
      [(('' '', ''{"name":"get_topics","parameters":{}}'', '' ''), '' ''),
       (('' '', deep_brackets, '' ''), [])]\<close>
    using deep_brackets_block
    by (simp add: well_delimited_def is_space_def whitespace_chars_def starts_with_def
          closer_def opener_def)
  have n1: \<open>filter (well_formed sample_loads)
      (map block_body [(('' '', ''{"name":"get_topics","parameters":{},"id":7}'', '' ''), [])]) = []\<close>
    by (simp add: well_formed_def sample_loads_table sample_table_def)
  have c1: \<open>collect_tool_calls sample_loads
      (map block_body [(('' '', ''{"name":"get_topics","parameters":{},"id":7}'', '' ''), [])])
     = Inr [PDict [(''name'', PStr ''get_topics''), (''parameters'', PDict []), (''id'', PInt 7)]]\<close>
    by (simp add: sample_loads_table sample_table_def is_tool_call_def has_key_def)
  have n2: \<open>filter (well_formed sample_loads)
      (map block_body [(('' '', ''{"name":"get_topics","parameters":{}}'', '' ''), '' ''),
                       (('' '', deep_brackets, '' ''), [])])
     = [''{"name":"get_topics","parameters":{}}'']\<close>
    by (simp add: well_formed_def sample_loads_table sample_table_def sample_loads_deep
          has_key_def dict_get_def dict_get_default_def)
  have c2: \<open>collect_tool_calls sample_loads
      (map block_body [(('' '', ''{"name":"get_topics","parameters":{}}'', '' ''), '' ''),
                       (('' '', deep_brackets, '' ''), [])])
     = Inl (Exception ''maximum recursion depth exceeded while decoding a JSON array'')\<close>
    by (simp add: sample_loads_table sample_table_def sample_loads_deep is_tool_call_def
          has_key_def)
  from extract_render [OF wd1, of sample_loads] extract_render [OF wd2, of sample_loads]
    n1 c1 n2 c2
  show ?thesis by (simp only: simp_thms)
qed

lemma is_tool_call_iff:
  "is_tool_call v \<longleftrightarrow> (\<exists>d. v = PDict d \<and> has_key d ''name'' \<and> has_key d ''parameters'')"
  by (cases v) (simp_all add: is_tool_call_def)

lemma spec_exact_is_tool_call: "spec_exact_tool_call v \<Longrightarrow> is_tool_call v"
  by (cases v) (simp_all add: is_tool_call_def)

text \<open>
  C8 as the code has it. For a fenced region whose body parses, the extractor keeps the
  parsed value exactly when it is an object that has the keys \<^verbatim>\<open>name\<close> and
  \<^verbatim>\<open>parameters\<close>: further keys and the types of the two values are not examined. An
  object of the exact two-field shape is therefore kept.
\<close>

theorem extractor_keeps_iff_both_keys:
  assumes "well_delimited gap0 [((w1, body, w2), gap)]" and "loads body = Inr v"
  shows "extract_tool_calls loads (gap0 @ render [((w1, body, w2), gap)])
           = Inr (if (\<exists>d. v = PDict d \<and> has_key d ''name'' \<and> has_key d ''parameters'')
                  then [v] else []) \<and>
         (spec_exact_tool_call v \<longrightarrow>
            extract_tool_calls loads (gap0 @ render [((w1, body, w2), gap)]) = Inr [v])"
proof -
  have "extract_tool_calls loads (gap0 @ render [((w1, body, w2), gap)])
          = collect_tool_calls loads (map block_body [((w1, body, w2), gap)])"
    using assms(1) by (rule extract_render)
  also have "\<dots> = Inr (if is_tool_call v then [v] else [])"
    using assms(2) by simp
  finally show ?thesis
    using is_tool_call_iff [of v] spec_exact_is_tool_call [of v] by auto
qed

theorem extractor_keeps_iff_both_keys_witness:
  \<open>well_delimited [] [(('' '', ''{"limit":5}'', '' ''), [])] \<and>
   sample_loads ''{"limit":5}'' = Inr (PDict [(''limit'', PInt 5)]) \<and>
   extract_tool_calls sample_loads ([] @ render [(('' '', ''{"limit":5}'', '' ''), [])]) = Inr []\<close>
proof -
  have wd: \<open>well_delimited [] [(('' '', ''{"limit":5}'', '' ''), [])]\<close>
    by (simp add: well_delimited_def is_space_def whitespace_chars_def starts_with_def closer_def)
  have ld: \<open>sample_loads ''{"limit":5}'' = Inr (PDict [(''limit'', PInt 5)])\<close>
    by (simp add: sample_loads_table sample_table_def)
  have k: "\<not> (\<exists>d. PDict [(''limit'', PInt 5)] = PDict d \<and> has_key d ''name''
                     \<and> has_key d ''parameters'')"
    by (simp add: has_key_def)
  from extractor_keeps_iff_both_keys [where loads = sample_loads, OF wd ld] wd ld k
  show ?thesis by (simp only: if_False simp_thms)
qed

text \<open>
  C8 as stated fails: the reply \<^verbatim>\<open>```json {"name":"get_topics","parameters":{},"id":7} ```\<close>
  holds an object with an extra key, and the reply
  \<^verbatim>\<open>```json {"name":["x"],"parameters":{}} ```\<close> one whose name is no text. Neither has the
  exact shape, and the extractor keeps both.
\<close>

theorem extractor_keeps_extra_key_counterexample:
  \<open>\<not> spec_exact_tool_call
       (PDict [(''name'', PStr ''get_topics''), (''parameters'', PDict []), (''id'', PInt 7)]) \<and>
   extract_tool_calls sample_loads
       ([] @ render [(('' '', ''{"name":"get_topics","parameters":{},"id":7}'', '' ''), [])])
     = Inr [PDict [(''name'', PStr ''get_topics''), (''parameters'', PDict []), (''id'', PInt 7)]] \<and>
   \<not> spec_exact_tool_call (PDict [(''name'', PList [PStr ''x'']), (''parameters'', PDict [])]) \<and>
   extract_tool_calls sample_loads
       ([] @ render [(('' '', ''{"name":["x"],"parameters":{}}'', '' ''), [])])
     = Inr [PDict [(''name'', PList [PStr ''x'']), (''parameters'', PDict [])]]\<close>
proof -
  have wd1: \<open>well_delimited []
      [(('' '', ''{"name":"get_topics","parameters":{},"id":7}'', '' ''), [])]\<close>
    by (simp add: well_delimited_def is_space_def whitespace_chars_def starts_with_def closer_def)
  have wd2: \<open>well_delimited [] [(('' '', ''{"name":["x"],"parameters":{}}'', '' ''), [])]\<close>
    by (simp add: well_delimited_def is_space_def whitespace_chars_def starts_with_def closer_def)
  have c1: \<open>collect_tool_calls sample_loads
      (map block_body [(('' '', ''{"name":"get_topics","parameters":{},"id":7}'', '' ''), [])])
     = Inr [PDict [(''name'', PStr ''get_topics''), (''parameters'', PDict []), (''id'', PInt 7)]]\<close>
    by (simp add: sample_loads_table sample_table_def is_tool_call_def has_key_def)
  have c2: \<open>collect_tool_calls sample_loads
      (map block_body [(('' '', ''{"name":["x"],"parameters":{}}'', '' ''), [])])
     = Inr [PDict [(''name'', PList [PStr ''x'']), (''parameters'', PDict [])]]\<close>
    by (simp add: sample_loads_table sample_table_def is_tool_call_def has_key_def)
  have s1: "\<not> spec_exact_tool_call
       (PDict [(''name'', PStr ''get_topics''), (''parameters'', PDict []), (''id'', PInt 7)])"
    by simp
  have s2: "\<not> spec_exact_tool_call (PDict [(''name'', PList [PStr ''x'']), (''parameters'', PDict [])])"
    by (simp add: dict_get_def dict_get_default_def)
  from extract_render [OF wd1, of sample_loads] extract_render [OF wd2, of sample_loads] c1 c2 s1 s2
  show ?thesis by (simp only: simp_thms)
qed

section \<open>Properties of the orchestrator\<close>

lemma process_message_gateway_raises:
  assumes "ollama_chat_completion (http_post env)
             (prompt env w (turn_history chat_id chat_history message)) w = (Inl e, w')"
  shows "process_message env message chat_id chat_history w
           = failed e (turn_history chat_id chat_history message) w'
               [GatewayCall (prompt env w (turn_history chat_id chat_history message)) (Inl e)]"
  using assms by (simp add: process_message_def Let_def prompt_def turn_history_def)

lemma process_message_bad_response:
  assumes "ollama_chat_completion (http_post env)
             (prompt env w (turn_history chat_id chat_history message)) w = (Inr response, w')"
    and "response_content response = Inl e"
  shows "process_message env message chat_id chat_history w
           = failed e (turn_history chat_id chat_history message) w'
               [GatewayCall (prompt env w (turn_history chat_id chat_history message))
                  (Inr response)]"
  using assms by (simp add: process_message_def Let_def prompt_def turn_history_def)

lemma process_message_not_text:
  assumes "ollama_chat_completion (http_post env)
             (prompt env w (turn_history chat_id chat_history message)) w = (Inr response, w')"
    and "response_content response = Inr v" and "\<not> is_text v"
  shows "process_message env message chat_id chat_history w
           = failed (not_a_string v) (turn_history chat_id chat_history message) w'
               [GatewayCall (prompt env w (turn_history chat_id chat_history message))
                  (Inr response)]"
  using assms
  by (cases v) (simp_all add: process_message_def Let_def prompt_def turn_history_def)

lemma process_message_extract_raises:
  assumes "ollama_chat_completion (http_post env)
             (prompt env w (turn_history chat_id chat_history message)) w = (Inr response, w')"
    and "response_content response = Inr (PStr reply)"
    and "extract_tool_calls (json_loads env) reply = Inl e"
  shows "process_message env message chat_id chat_history w
           = failed e (turn_history chat_id chat_history message) w'
               [GatewayCall (prompt env w (turn_history chat_id chat_history message))
                  (Inr response)]"
  using assms by (simp add: process_message_def Let_def prompt_def turn_history_def)

lemma process_message_no_tool_calls:
  assumes "ollama_chat_completion (http_post env)
             (prompt env w (turn_history chat_id chat_history message)) w = (Inr response, w')"
    and "response_content response = Inr (PStr reply)"
    and "extract_tool_calls (json_loads env) reply = Inr []"
  shows "process_message env message chat_id chat_history w
           = \<lparr>answer = Inr (PStr reply),
              history = turn_history chat_id chat_history message
                          @ [msg ''assistant'' (PStr reply)],
              world = w',
              calls = [GatewayCall (prompt env w (turn_history chat_id chat_history message))
                         (Inr response)]\<rparr>"
  using assms by (simp add: process_message_def Let_def prompt_def turn_history_def)

lemma process_message_tool_calls:
  assumes "ollama_chat_completion (http_post env)
             (prompt env w (turn_history chat_id chat_history message)) w = (Inr response, w')"
    and "response_content response = Inr (PStr reply)"
    and "extract_tool_calls (json_loads env) reply = Inr tool_calls"
    and "tool_calls \<noteq> []"
  shows "process_message env message chat_id chat_history w
           = synthesis env (prompt env w (turn_history chat_id chat_history message))
               (turn_history chat_id chat_history message) (PStr reply) tool_calls w'
               [GatewayCall (prompt env w (turn_history chat_id chat_history message))
                  (Inr response)]"
  using assms by (simp add: process_message_def Let_def prompt_def turn_history_def)

lemma synthesis_tools_raise:
  assumes "run_tool_calls (tool_handlers env) tool_calls w = (Inl e, w')"
  shows "synthesis env messages hist reply tool_calls w made = failed e hist w' made"
  using assms by (simp add: synthesis_def)

lemma synthesis_dumps_raises:
  assumes "run_tool_calls (tool_handlers env) tool_calls w = (Inr results, w')"
    and "json_dumps env (PList results) = Inl e"
  shows "synthesis env messages hist reply tool_calls w made = failed e hist w' made"
  using assms by (simp add: synthesis_def)

lemma synthesis_gateway_raises:
  assumes "run_tool_calls (tool_handlers env) tool_calls w = (Inr results, w')"
    and "json_dumps env (PList results) = Inr dumped"
    and "ollama_chat_completion (http_post env)
           (messages @ [msg ''assistant'' reply, tool_results_message dumped]) w' = (Inl e, w'')"
  shows "synthesis env messages hist reply tool_calls w made
           = failed e (hist @ [msg ''assistant'' reply, tool_results_message dumped]) w''
               (made @ [GatewayCall
                  (messages @ [msg ''assistant'' reply, tool_results_message dumped]) (Inl e)])"
  using assms by (simp add: synthesis_def Let_def)

lemma synthesis_bad_response:
  assumes "run_tool_calls (tool_handlers env) tool_calls w = (Inr results, w')"
    and "json_dumps env (PList results) = Inr dumped"
    and "ollama_chat_completion (http_post env)
           (messages @ [msg ''assistant'' reply, tool_results_message dumped]) w' = (Inr r, w'')"
    and "response_content r = Inl e"
  shows "synthesis env messages hist reply tool_calls w made
           = failed e (hist @ [msg ''assistant'' reply, tool_results_message dumped]) w''
               (made @ [GatewayCall
                  (messages @ [msg ''assistant'' reply, tool_results_message dumped]) (Inr r)])"
  using assms by (simp add: synthesis_def Let_def)

lemma synthesis_answers:
  assumes "run_tool_calls (tool_handlers env) tool_calls w = (Inr results, w')"
    and "json_dumps env (PList results) = Inr dumped"
    and "ollama_chat_completion (http_post env)
           (messages @ [msg ''assistant'' reply, tool_results_message dumped]) w' = (Inr r, w'')"
    and "response_content r = Inr a"
  shows "synthesis env messages hist reply tool_calls w made
           = \<lparr>answer = Inr a,
              history = hist @ [msg ''assistant'' reply, tool_results_message dumped,
                                msg ''assistant'' a],
              world = w'',
              calls = made @ [GatewayCall
                  (messages @ [msg ''assistant'' reply, tool_results_message dumped]) (Inr r)]\<rparr>"
  using assms by (simp add: synthesis_def Let_def)

lemma synthesis_shape:
  "(\<forall>e. answer (synthesis env messages hist reply tool_calls w [GatewayCall ms1 (Inr r1)]) = Inl e
        \<longrightarrow> \<not> is_Exception e) \<and>
   (\<forall>ms e. GatewayCall ms (Inl e)
               \<in> set (calls (synthesis env messages hist reply tool_calls w [GatewayCall ms1 (Inr r1)]))
             \<and> is_Exception e
        \<longrightarrow> answer (synthesis env messages hist reply tool_calls w [GatewayCall ms1 (Inr r1)])
              = Inr (PStr apology)) \<and>
   (\<forall>v. answer (synthesis env messages hist reply tool_calls w [GatewayCall ms1 (Inr r1)]) = Inr v
        \<longrightarrow> is_text v \<or>
            (\<exists>ms2 r2. calls (synthesis env messages hist reply tool_calls w [GatewayCall ms1 (Inr r1)])
                         = [GatewayCall ms1 (Inr r1), GatewayCall ms2 (Inr r2)] \<and>
                      response_content r2 = Inr v))"
  unfolding synthesis_def Let_def
  by (auto simp add: failed_def split: prod.splits sum.splits)

lemma failed_shape:
  "(\<forall>e'. answer (failed e hist w [GatewayCall ms r]) = Inl e' \<longrightarrow> \<not> is_Exception e') \<and>
   (\<forall>v. answer (failed e hist w [GatewayCall ms r]) = Inr v \<longrightarrow> is_text v)"
  by (simp add: failed_def)

text \<open>
  C1 as the code has it. No instance of \<^verbatim>\<open>Exception\<close> ever leaves
  \<^verbatim>\<open>process_message\<close>: whatever the gateway, the parser, the handlers and the serialiser
  do, the call returns a value, or lets through an exception that is no
  \<^verbatim>\<open>Exception\<close> (a cancellation). Whenever a gateway call of the turn failed with an
  \<^verbatim>\<open>Exception\<close>, the value returned is the fixed apology text. A value returned is a
  text unless two gateway calls succeeded, in which case it is the content of the second
  reply, whatever its type.
\<close>

theorem process_message_returns:
  "(\<forall>e. answer (process_message env message chat_id chat_history w) = Inl e
        \<longrightarrow> \<not> is_Exception e) \<and>
   (\<forall>ms e. GatewayCall ms (Inl e) \<in> set (calls (process_message env message chat_id chat_history w))
             \<and> is_Exception e
        \<longrightarrow> answer (process_message env message chat_id chat_history w) = Inr (PStr apology)) \<and>
   (\<forall>v. answer (process_message env message chat_id chat_history w) = Inr v
        \<longrightarrow> is_text v \<or>
            (\<exists>ms1 r1 ms2 r2.
               calls (process_message env message chat_id chat_history w)
                 = [GatewayCall ms1 (Inr r1), GatewayCall ms2 (Inr r2)] \<and>
               response_content r2 = Inr v))"
proof -
  let ?hist = "turn_history chat_id chat_history message"
  let ?ms = "prompt env w ?hist"
  obtain r1 w1 where occ: "ollama_chat_completion (http_post env) ?ms w = (r1, w1)"
    by (cases "ollama_chat_completion (http_post env) ?ms w")
  show ?thesis
  proof (cases r1)
    case (Inl e)
    with occ show ?thesis
      by (simp add: process_message_gateway_raises failed_def)
  next
    case (Inr response)
    note resp = this
    show ?thesis
    proof (cases "response_content response")
      case (Inl e)
      with occ resp show ?thesis
        by (simp add: process_message_bad_response failed_def)
    next
      case (Inr model_response)
      note content = this
      show ?thesis
      proof (cases "is_text model_response")
        case False
        with occ resp content show ?thesis
          by (simp add: process_message_not_text failed_def not_a_string_def)
      next
        case True
        then obtain reply where rt: "model_response = PStr reply"
          by (cases model_response) simp_all
        show ?thesis
        proof (cases "extract_tool_calls (json_loads env) reply")
          case (Inl e)
          with occ resp content rt show ?thesis
            by (simp add: process_message_extract_raises failed_def)
        next
          case (Inr tool_calls)
          note ex = this
          show ?thesis
          proof (cases "tool_calls = []")
            case True
            with occ resp content rt ex show ?thesis
              by (simp add: process_message_no_tool_calls)
          next
            case False
            with occ resp content rt ex
            have "process_message env message chat_id chat_history w
                    = synthesis env ?ms ?hist (PStr reply) tool_calls w1
                        [GatewayCall ?ms (Inr response)]"
              by (simp add: process_message_tool_calls)
            then show ?thesis
              using synthesis_shape [of env ?ms ?hist "PStr reply" tool_calls w1 ?ms response]
              by auto
          qed
        qed
      qed
    qed
  qed
qed

lemma extract_fenced:
  assumes "block_ok ('' '', body, '' '')"
  shows "extract_tool_calls loads (fenced body) = collect_tool_calls loads [body]"
proof -
  have "fenced body = [] @ render [(('' '', body, '' ''), [])]"
    by (simp add: fenced_def)
  moreover have "well_delimited [] [(('' '', body, '' ''), [])]"
    using assms by (simp add: well_delimited_def)
  ultimately show ?thesis
    using extract_render [of "[]" "[(('' '', body, '' ''), [])]" loads] by simp
qed

lemma extract_topics_call:
  "extract_tool_calls sample_loads (fenced topics_call)
     = Inr [PDict [(''name'', PStr ''get_topics''), (''parameters'', PDict [])]]"
proof -
  have "block_ok ('' '', topics_call, '' '')"
    by (simp add: topics_call_def is_space_def whitespace_chars_def starts_with_def closer_def)
  then show ?thesis
    by (simp add: extract_fenced topics_call_def sample_loads_table sample_table_def
          is_tool_call_def has_key_def)
qed

lemma extract_list_name_call:
  "extract_tool_calls sample_loads (fenced list_name_call)
     = Inr [PDict [(''name'', PList [PStr ''x'']), (''parameters'', PDict [])]]"
proof -
  have "block_ok ('' '', list_name_call, '' '')"
    by (simp add: list_name_call_def is_space_def whitespace_chars_def starts_with_def closer_def)
  then show ?thesis
    by (simp add: extract_fenced list_name_call_def sample_loads_table sample_table_def
          is_tool_call_def has_key_def)
qed


lemma extract_plain: "extract_tool_calls loads ''Hello'' = Inr []"
  by (simp add: extract_tool_calls_def starts_with_def opener_def)

lemma sample_gateway:
  "ollama_chat_completion (http_post (sample_env replies handler)) messages w
     = (case replies w of
          Inl e \<Rightarrow> (Inl e, Suc w)
        | Inr data \<Rightarrow> ollama_chat_completion (\<lambda>messages w. (Inr data, Suc w)) messages w)"
  by (simp add: ollama_chat_completion_def sample_env_def split: sum.splits)

lemma gateway_assistant_reply:
  "ollama_chat_completion (\<lambda>messages w. (assistant_reply content, Suc w)) messages w
     = (Inr (PDict [(''message'', PDict [(''content'', content), (''role'', PStr ''assistant'')])]),
        Suc w)"
  by (simp add: ollama_chat_completion_def assistant_reply_def has_key_def
        dict_get_def dict_get_default_def)

lemma wrapped_content:
  "response_content (PDict [(''message'', PDict [(''content'', content), (''role'', PStr ''assistant'')])])
     = Inr content"
  by (simp add: response_content_def dict_get_default_def)

lemma sample_prompt:
  "prompt (sample_env replies handler) w hist = msg ''system'' (PStr ''SYSTEM'') # hist"
  by (simp add: prompt_def sample_env_def)

lemma sample_loads_of_env: "json_loads (sample_env replies handler) = sample_loads"
  by (simp add: sample_env_def)

lemma sample_dumps_of_env: "json_dumps (sample_env replies handler) v = Inr ''RESULTS''"
  by (simp add: sample_env_def)

lemma sample_run_topics:
  "run_tool_calls (tool_handlers (sample_env replies topic_names))
     [PDict [(''name'', PStr ''get_topics''), (''parameters'', PDict [])]] w
   = (Inr [PDict [(''tool_name'', PStr ''get_topics''), (''parameters'', PDict []),
                  (''result'', PList [PStr ''Energy''])]], w)"
  by (simp add: sample_env_def topic_names_def execute_tool_def available_tools_def dict_get_def
        dict_get_default_def)


lemma sample_run_list_name:
  "run_tool_calls (tool_handlers (sample_env replies handler))
     [PDict [(''name'', PList [PStr ''x'']), (''parameters'', PDict [])]] w
   = (Inl (unhashable (PList [PStr ''x''])), w)"
  by (simp add: sample_env_def execute_tool_def dict_get_def dict_get_default_def)

lemma sample_gateway_down:
  "ollama_chat_completion (http_post (sample_env backend_down handler)) messages w
     = (Inl (Exception ''Cannot connect to host''), Suc w)"
  by (simp add: sample_gateway backend_down_def)

lemma sample_gateway_cancelled:
  "ollama_chat_completion (http_post (sample_env backend_cancelled handler)) messages w
     = (Inl (BaseException []), Suc w)"
  by (simp add: sample_gateway backend_cancelled_def)

lemma sample_gateway_hello:
  "ollama_chat_completion (http_post (sample_env backend_hello handler)) messages w
     = (Inr (wrapped (PStr ''Hello'')), Suc w)"
  by (simp add: sample_gateway backend_hello_def gateway_assistant_reply [unfolded assistant_reply_def]
        assistant_reply_def wrapped_def)


lemma sample_gateway_list_name:
  "ollama_chat_completion (http_post (sample_env backend_list_name handler)) messages 0
     = (Inr (wrapped (PStr (fenced list_name_call))), Suc 0)"
  by (simp add: sample_gateway backend_list_name_def gateway_assistant_reply [unfolded assistant_reply_def]
        assistant_reply_def wrapped_def)

lemma sample_gateway_tool_first:
  "ollama_chat_completion (http_post (sample_env (backend_tool_then second) handler)) messages 0
     = (Inr (wrapped (PStr (fenced topics_call))), Suc 0)"
  by (simp add: sample_gateway backend_tool_then_def gateway_assistant_reply [unfolded assistant_reply_def]
        assistant_reply_def wrapped_def)

lemma sample_gateway_tool_second_reply:
  "ollama_chat_completion
     (http_post (sample_env (backend_tool_then (assistant_reply a)) handler)) messages (Suc 0)
     = (Inr (wrapped a), Suc (Suc 0))"
  by (simp add: sample_gateway backend_tool_then_def gateway_assistant_reply [unfolded assistant_reply_def]
        assistant_reply_def wrapped_def)

lemma sample_gateway_tool_second_raises:
  "ollama_chat_completion
     (http_post (sample_env (backend_tool_then (Inl e)) handler)) messages (Suc 0)
     = (Inl e, Suc (Suc 0))"
  by (simp add: sample_gateway backend_tool_then_def)

lemma content_of_wrapped: "response_content (wrapped content) = Inr content"
  by (simp add: wrapped_def wrapped_content)

lemma sample_turn_down:
  "process_message (sample_env backend_down handler) message chat_id chat_history w
     = failed (Exception ''Cannot connect to host'') (turn_history chat_id chat_history message)
         (Suc w)
         [GatewayCall (msg ''system'' (PStr ''SYSTEM'') # turn_history chat_id chat_history message)
            (Inl (Exception ''Cannot connect to host''))]"
  using process_message_gateway_raises [OF sample_gateway_down]
  by (simp only: sample_prompt)

lemma sample_turn_cancelled:
  "process_message (sample_env backend_cancelled handler) message chat_id chat_history w
     = failed (BaseException []) (turn_history chat_id chat_history message) (Suc w)
         [GatewayCall (msg ''system'' (PStr ''SYSTEM'') # turn_history chat_id chat_history message)
            (Inl (BaseException []))]"
  using process_message_gateway_raises [OF sample_gateway_cancelled]
  by (simp only: sample_prompt)

lemma sample_turn_hello:
  "process_message (sample_env backend_hello handler) message chat_id chat_history w
     = \<lparr>answer = Inr (PStr ''Hello''),
        history = turn_history chat_id chat_history message @ [msg ''assistant'' (PStr ''Hello'')],
        world = Suc w,
        calls = [GatewayCall
                   (msg ''system'' (PStr ''SYSTEM'') # turn_history chat_id chat_history message)
                   (Inr (wrapped (PStr ''Hello'')))]\<rparr>"
proof -
  have ex: "extract_tool_calls (json_loads (sample_env backend_hello handler)) ''Hello'' = Inr []"
    by (rule extract_plain)
  from process_message_no_tool_calls [OF sample_gateway_hello content_of_wrapped ex]
  show ?thesis by (simp only: sample_prompt)
qed


lemma sample_turn_list_name:
  "process_message (sample_env backend_list_name handler) message chat_id chat_history 0
     = failed (unhashable (PList [PStr ''x''])) (turn_history chat_id chat_history message) (Suc 0)
         [GatewayCall (msg ''system'' (PStr ''SYSTEM'') # turn_history chat_id chat_history message)
            (Inr (wrapped (PStr (fenced list_name_call))))]"
proof -
  have ex: "extract_tool_calls (json_loads (sample_env backend_list_name handler))
        (fenced list_name_call)
      = Inr [PDict [(''name'', PList [PStr ''x'']), (''parameters'', PDict [])]]"
    by (simp only: sample_loads_of_env extract_list_name_call)
  have ne: "[PDict [(''name'', PList [PStr ''x'']), (''parameters'', PDict [])]] \<noteq> []"
    by simp
  from process_message_tool_calls [OF sample_gateway_list_name content_of_wrapped ex ne]
    synthesis_tools_raise [OF sample_run_list_name]
  show ?thesis by (simp only: sample_prompt)
qed

lemma sample_turn_tool:
  "process_message (sample_env (backend_tool_then second) handler) message chat_id chat_history 0
     = synthesis (sample_env (backend_tool_then second) handler)
         (msg ''system'' (PStr ''SYSTEM'') # turn_history chat_id chat_history message)
         (turn_history chat_id chat_history message) (PStr (fenced topics_call))
         [PDict [(''name'', PStr ''get_topics''), (''parameters'', PDict [])]] (Suc 0)
         [GatewayCall (msg ''system'' (PStr ''SYSTEM'') # turn_history chat_id chat_history message)
            (Inr (wrapped (PStr (fenced topics_call))))]"
proof -
  have ex: "extract_tool_calls (json_loads (sample_env (backend_tool_then second) handler))
        (fenced topics_call)
      = Inr [PDict [(''name'', PStr ''get_topics''), (''parameters'', PDict [])]]"
    by (simp only: sample_loads_of_env extract_topics_call)
  have ne: "[PDict [(''name'', PStr ''get_topics''), (''parameters'', PDict [])]] \<noteq> []"
    by simp
  from process_message_tool_calls [OF sample_gateway_tool_first content_of_wrapped ex ne]
  show ?thesis by (simp only: sample_prompt)
qed

lemma sample_turn_tool_answers:
  "process_message (sample_env (backend_tool_then (assistant_reply a)) topic_names)
     message chat_id chat_history 0
   = \<lparr>answer = Inr a,
      history = turn_history chat_id chat_history message
                  @ [msg ''assistant'' (PStr (fenced topics_call)), tool_results_message ''RESULTS'',
                     msg ''assistant'' a],
      world = Suc (Suc 0),
      calls = [GatewayCall
                 (msg ''system'' (PStr ''SYSTEM'') # turn_history chat_id chat_history message)
                 (Inr (wrapped (PStr (fenced topics_call))))]
              @ [GatewayCall
                   ((msg ''system'' (PStr ''SYSTEM'') # turn_history chat_id chat_history message)
                      @ [msg ''assistant'' (PStr (fenced topics_call)),
                         tool_results_message ''RESULTS''])
                   (Inr (wrapped a))]\<rparr>"
  using synthesis_answers
      [OF sample_run_topics sample_dumps_of_env sample_gateway_tool_second_reply content_of_wrapped]
    sample_turn_tool [of "assistant_reply a" topic_names]
  by simp

lemma sample_turn_tool_fails:
  "process_message (sample_env (backend_tool_then (Inl e)) topic_names)
     message chat_id chat_history 0
   = failed e
      (turn_history chat_id chat_history message
         @ [msg ''assistant'' (PStr (fenced topics_call)), tool_results_message ''RESULTS''])
      (Suc (Suc 0))
      ([GatewayCall
          (msg ''system'' (PStr ''SYSTEM'') # turn_history chat_id chat_history message)
          (Inr (wrapped (PStr (fenced topics_call))))]
       @ [GatewayCall
            ((msg ''system'' (PStr ''SYSTEM'') # turn_history chat_id chat_history message)
               @ [msg ''assistant'' (PStr (fenced topics_call)), tool_results_message ''RESULTS''])
            (Inl e)])"
  using synthesis_gateway_raises
      [OF sample_run_topics sample_dumps_of_env sample_gateway_tool_second_raises]
    sample_turn_tool [of "Inl e" topic_names]
  by simp


theorem process_message_returns_witness:
  "GatewayCall [msg ''system'' (PStr ''SYSTEM''), msg ''user'' (PStr ''Hi'')]
       (Inl (Exception ''Cannot connect to host''))
     \<in> set (calls (process_message (sample_env backend_down topic_names) ''Hi'' None [] 0)) \<and>
   is_Exception (Exception ''Cannot connect to host'') \<and>
   answer (process_message (sample_env backend_down topic_names) ''Hi'' None [] 0)
     = Inr (PStr apology) \<and>
   is_text (PStr apology)"
proof -
  let ?out = "process_message (sample_env backend_down topic_names) ''Hi'' None [] 0"
  let ?ms = "[msg ''system'' (PStr ''SYSTEM''), msg ''user'' (PStr ''Hi'')]"
  let ?e = "Exception ''Cannot connect to host''"
  have c: "GatewayCall ?ms (Inl ?e) \<in> set (calls ?out)"
    by (simp add: sample_turn_down failed_def turn_history_def resolve_history_def)
  have e: "is_Exception ?e"
    by simp
  have "GatewayCall ?ms (Inl ?e) \<in> set (calls ?out) \<and> is_Exception ?e
          \<longrightarrow> answer ?out = Inr (PStr apology)"
    using process_message_returns [of "sample_env backend_down topic_names" "''Hi''" None "[]" 0]
    by blast
  with c e have "answer ?out = Inr (PStr apology)"
    by (simp only: simp_thms)
  with c e show ?thesis
    by simp
qed

text \<open>
  C1 as stated fails in two ways. When the first reply asks for a tool and the second
  reply's content is the number 5, the value returned is that number, not a text. When
  the HTTP exchange is cancelled, \<^verbatim>\<open>CancelledError\<close> is no \<^verbatim>\<open>Exception\<close> and leaves
  \<^verbatim>\<open>process_message\<close>.
\<close>

theorem process_message_returns_counterexample:
  "answer (process_message (sample_env (backend_tool_then (assistant_reply (PInt 5))) topic_names)
             ''Which topics?'' None [] 0) = Inr (PInt 5) \<and>
   \<not> is_text (PInt 5) \<and>
   answer (process_message (sample_env backend_cancelled topic_names) ''Hi'' None [] 0)
     = Inl (BaseException [])"
  by (simp add: sample_turn_tool_answers sample_turn_cancelled failed_def)




lemma synthesis_failure_shape:
  assumes "GatewayCall ms (Inl e)
             \<in> set (calls (synthesis env messages hist reply tool_calls w [GatewayCall ms1 (Inr r1)]))"
  shows "\<exists>dumped.
           calls (synthesis env messages hist reply tool_calls w [GatewayCall ms1 (Inr r1)])
             = [GatewayCall ms1 (Inr r1),
                GatewayCall (messages @ [msg ''assistant'' reply, tool_results_message dumped])
                  (Inl e)] \<and>
           history (synthesis env messages hist reply tool_calls w [GatewayCall ms1 (Inr r1)])
             = hist @ [msg ''assistant'' reply, tool_results_message dumped] \<and>
           answer (synthesis env messages hist reply tool_calls w [GatewayCall ms1 (Inr r1)])
             = (if is_Exception e then Inr (PStr apology) else Inl e)"
  using assms unfolding synthesis_def Let_def
  by (auto simp add: failed_def split: prod.splits sum.splits)

text \<open>
  C5 as the code has it. When a gateway call of the turn failed with an \<^verbatim>\<open>Exception\<close>,
  the turn returns the fixed apology. If it was the first call, the history afterwards
  ends with the user's message of the turn. If it was the second call, the history
  afterwards holds, after the user's message, the first reply as an assistant message
  and the message with the tool results (lines 475 and 476 append both before the call).
\<close>

theorem gateway_failure_apology_history:
  assumes "GatewayCall ms (Inl e)
             \<in> set (calls (process_message env message chat_id chat_history w))"
    and "is_Exception e"
  shows "answer (process_message env message chat_id chat_history w) = Inr (PStr apology) \<and>
         (calls (process_message env message chat_id chat_history w)
            = [GatewayCall (prompt env w (turn_history chat_id chat_history message)) (Inl e)] \<and>
          history (process_message env message chat_id chat_history w)
            = turn_history chat_id chat_history message
          \<or>
          (\<exists>r1 reply dumped.
             response_content r1 = Inr (PStr reply) \<and>
             calls (process_message env message chat_id chat_history w)
               = [GatewayCall (prompt env w (turn_history chat_id chat_history message)) (Inr r1),
                  GatewayCall (prompt env w (turn_history chat_id chat_history message)
                                 @ [msg ''assistant'' (PStr reply), tool_results_message dumped])
                    (Inl e)] \<and>
             history (process_message env message chat_id chat_history w)
               = turn_history chat_id chat_history message
                   @ [msg ''assistant'' (PStr reply), tool_results_message dumped]))"
proof -
  let ?hist = "turn_history chat_id chat_history message"
  let ?ms = "prompt env w ?hist"
  let ?out = "process_message env message chat_id chat_history w"
  obtain r1 w1 where occ: "ollama_chat_completion (http_post env) ?ms w = (r1, w1)"
    by (cases "ollama_chat_completion (http_post env) ?ms w")
  have shape: "answer ?out = Inr (PStr apology) \<and>
         (calls ?out = [GatewayCall ?ms (Inl e)] \<and> history ?out = ?hist
          \<or> (\<exists>r1 reply dumped.
                response_content r1 = Inr (PStr reply) \<and>
                calls ?out = [GatewayCall ?ms (Inr r1),
                              GatewayCall (?ms @ [msg ''assistant'' (PStr reply),
                                                  tool_results_message dumped]) (Inl e)] \<and>
                history ?out = ?hist @ [msg ''assistant'' (PStr reply), tool_results_message dumped]))"
  proof (cases r1)
    case (Inl e')
    with occ have out: "?out = failed e' ?hist w1 [GatewayCall ?ms (Inl e')]"
      by (simp add: process_message_gateway_raises)
    with assms(1) have "e' = e"
      by (simp add: failed_def)
    with out assms(2) show ?thesis
      by (simp add: failed_def)
  next
    case (Inr response)
    note resp = this
    show ?thesis
    proof (cases "response_content response")
      case (Inl e')
      with occ resp assms(1) show ?thesis
        by (simp add: process_message_bad_response failed_def)
    next
      case (Inr model_response)
      note content = this
      show ?thesis
      proof (cases "is_text model_response")
        case False
        with occ resp content assms(1) show ?thesis
          by (simp add: process_message_not_text failed_def)
      next
        case True
        then obtain reply where rt: "model_response = PStr reply"
          by (cases model_response) simp_all
        show ?thesis
        proof (cases "extract_tool_calls (json_loads env) reply")
          case (Inl e')
          with occ resp content rt assms(1) show ?thesis
            by (simp add: process_message_extract_raises failed_def)
        next
          case (Inr tool_calls)
          note ex = this
          show ?thesis
          proof (cases "tool_calls = []")
            case True
            with occ resp content rt ex assms(1) show ?thesis
              by (simp add: process_message_no_tool_calls)
          next
            case False
            with occ resp content rt ex
            have out: "?out = synthesis env ?ms ?hist (PStr reply) tool_calls w1
                        [GatewayCall ?ms (Inr response)]"
              by (simp add: process_message_tool_calls)
            with assms(1)
            have "GatewayCall ms (Inl e)
                    \<in> set (calls (synthesis env ?ms ?hist (PStr reply) tool_calls w1
                                   [GatewayCall ?ms (Inr response)]))"
              by simp
            from synthesis_failure_shape [OF this] out content rt assms(2) show ?thesis
              by auto
          qed
        qed
      qed
    qed
  qed
  from shape show ?thesis
    by (simp only: simp_thms)
qed

theorem gateway_failure_apology_history_witness:
  "GatewayCall [msg ''system'' (PStr ''SYSTEM''), msg ''user'' (PStr ''Hi'')]
       (Inl (Exception ''Cannot connect to host''))
     \<in> set (calls (process_message (sample_env backend_down topic_names) ''Hi'' None [] 0)) \<and>
   is_Exception (Exception ''Cannot connect to host'') \<and>
   answer (process_message (sample_env backend_down topic_names) ''Hi'' None [] 0)
     = Inr (PStr apology) \<and>
   history (process_message (sample_env backend_down topic_names) ''Hi'' None [] 0)
     = [msg ''user'' (PStr ''Hi'')]"
proof -
  let ?out = "process_message (sample_env backend_down topic_names) ''Hi'' None [] 0"
  let ?ms = "[msg ''system'' (PStr ''SYSTEM''), msg ''user'' (PStr ''Hi'')]"
  let ?e = "Exception ''Cannot connect to host''"
  have c: "GatewayCall ?ms (Inl ?e) \<in> set (calls ?out)"
    by (simp add: sample_turn_down failed_def turn_history_def resolve_history_def)
  have e: "is_Exception ?e"
    by simp
  have h: "history ?out = [msg ''user'' (PStr ''Hi'')]"
    by (simp add: sample_turn_down failed_def turn_history_def resolve_history_def)
  from gateway_failure_apology_history [OF c e] have "answer ?out = Inr (PStr apology)"
    by (rule conjunct1)
  with c e h show ?thesis
    by (simp only: simp_thms)
qed

text \<open>
  C5 as stated fails at phase 2: when the second gateway call cannot connect, the history
  afterwards holds an assistant message of that turn, the first reply.
\<close>

theorem phase_two_failure_history_counterexample:
  "GatewayCall
     [msg ''system'' (PStr ''SYSTEM''), msg ''user'' (PStr ''Which topics?''),
      msg ''assistant'' (PStr (fenced topics_call)), tool_results_message ''RESULTS'']
     (Inl (Exception ''Cannot connect to host''))
     \<in> set (calls (process_message
                     (sample_env (backend_tool_then (Inl (Exception ''Cannot connect to host'')))
                        topic_names)
                     ''Which topics?'' None [] 0)) \<and>
   answer (process_message
             (sample_env (backend_tool_then (Inl (Exception ''Cannot connect to host'')))
                topic_names)
             ''Which topics?'' None [] 0) = Inr (PStr apology) \<and>
   history (process_message
              (sample_env (backend_tool_then (Inl (Exception ''Cannot connect to host'')))
                 topic_names)
              ''Which topics?'' None [] 0)
     = [msg ''user'' (PStr ''Which topics?''),
        msg ''assistant'' (PStr (fenced topics_call)),
        tool_results_message ''RESULTS'']"
  by (simp add: sample_turn_tool_fails failed_def turn_history_def resolve_history_def)

text \<open>
  C7 on the code. Two turns of one session \<^verbatim>\<open>s1\<close>: the second turn starts from the history
  the first one left, and yet its prompt holds the system message and the new user
  message only, and the history after it has lost the first turn. Line 372 looks the
  session id up among the messages of the history, where it never is, and line 373
  empties the history at every turn.
\<close>

theorem second_turn_forgets_first_turn:
  "history (process_message (sample_env backend_hello topic_names) ''Hi'' (Some ''s1'') [] 0)
     = [msg ''user'' (PStr ''Hi''), msg ''assistant'' (PStr ''Hello'')] \<and>
   world (process_message (sample_env backend_hello topic_names) ''Hi'' (Some ''s1'') [] 0) = 1 \<and>
   calls (process_message (sample_env backend_hello topic_names) ''Again'' (Some ''s1'')
            [msg ''user'' (PStr ''Hi''), msg ''assistant'' (PStr ''Hello'')] 1)
     = [GatewayCall [msg ''system'' (PStr ''SYSTEM''), msg ''user'' (PStr ''Again'')]
          (Inr (wrapped (PStr ''Hello'')))] \<and>
   history (process_message (sample_env backend_hello topic_names) ''Again'' (Some ''s1'')
              [msg ''user'' (PStr ''Hi''), msg ''assistant'' (PStr ''Hello'')] 1)
     = [msg ''user'' (PStr ''Again''), msg ''assistant'' (PStr ''Hello'')]"
proof -
  have r: "resolve_history (Some ''s1'')
             [msg ''user'' (PStr ''Hi''), msg ''assistant'' (PStr ''Hello'')] = []"
    by (simp add: resolve_history_def msg_def)
  show ?thesis
    by (simp add: sample_turn_hello turn_history_def r) (simp add: resolve_history_def)
qed

section \<open>Properties of the dispatch loop\<close>










end
